theory Spec2Isabelle
  imports Complex_Main "HOL-Library.Sublist"
begin

section \<open>JavaScript values used by the server\<close>

text \<open>
  The server is \<^verbatim>\<open>server.js\<close> (an ES module, so strict mode). A thrown
  JavaScript \<^verbatim>\<open>Error\<close> is a value \<open>Error msg\<close>; a function that may throw returns
  \<open>js_error + 'a\<close>, with \<open>Inl\<close> for the throw. A string is a well-formed text (no
  unpaired surrogate), held as the list of the bytes of its UTF-8 encoding, as
  it stands in a file and in a request; the line feed is the character \<open>\<newline>\<close>.
\<close>

datatype js_error = Error (message: string)

text \<open>\<^verbatim>\<open>s.split(c)\<close> for a one-character separator: \<^verbatim>\<open>"".split("/")\<close> is \<^verbatim>\<open>[""]\<close>.\<close>

fun split_on :: "char \<Rightarrow> string \<Rightarrow> string list" where
  "split_on c [] = [[]]"
| "split_on c (x # xs) =
     (if x = c then [] # split_on c xs
      else (case split_on c xs of
              [] \<Rightarrow> [[x]]
            | w # ws \<Rightarrow> (x # w) # ws))"

text \<open>\<^verbatim>\<open>xs.join(sep)\<close> on an array of strings.\<close>

fun join :: "string \<Rightarrow> string list \<Rightarrow> string" where
  "join sep [] = []"
| "join sep [x] = x"
| "join sep (x # y # ys) = x @ sep @ join sep (y # ys)"

text \<open>\<^verbatim>\<open>s.startsWith(p)\<close>.\<close>

definition startsWith :: "string \<Rightarrow> string \<Rightarrow> bool" where
  "startsWith s p = prefix p s"

text \<open>
  The characters a regular expression matches with \<^verbatim>\<open>\s\<close>, each as its UTF-8 bytes:
  tabulator, line feed, vertical tabulator, form feed, carriage return, space,
  U+00A0, U+1680, U+2000 to U+200A, U+2028, U+2029, U+202F, U+205F, U+3000 and
  U+FEFF. \<open>space_length\<close> is the number of bytes of such a character at the head
  of a string (0 when there is none); \<open>skip_spaces\<close> is the rest after \<^verbatim>\<open>\s*\<close>.
\<close>

definition white_space_codes :: "string list" where
  "white_space_codes =
     [[CHR 0x09], [CHR 0x0A], [CHR 0x0B], [CHR 0x0C], [CHR 0x0D], [CHR 0x20],
      [CHR 0xC2, CHR 0xA0], [CHR 0xE1, CHR 0x9A, CHR 0x80],
      [CHR 0xE2, CHR 0x80, CHR 0x80], [CHR 0xE2, CHR 0x80, CHR 0x81],
      [CHR 0xE2, CHR 0x80, CHR 0x82], [CHR 0xE2, CHR 0x80, CHR 0x83],
      [CHR 0xE2, CHR 0x80, CHR 0x84], [CHR 0xE2, CHR 0x80, CHR 0x85],
      [CHR 0xE2, CHR 0x80, CHR 0x86], [CHR 0xE2, CHR 0x80, CHR 0x87],
      [CHR 0xE2, CHR 0x80, CHR 0x88], [CHR 0xE2, CHR 0x80, CHR 0x89],
      [CHR 0xE2, CHR 0x80, CHR 0x8A], [CHR 0xE2, CHR 0x80, CHR 0xA8],
      [CHR 0xE2, CHR 0x80, CHR 0xA9], [CHR 0xE2, CHR 0x80, CHR 0xAF],
      [CHR 0xE2, CHR 0x81, CHR 0x9F], [CHR 0xE3, CHR 0x80, CHR 0x80],
      [CHR 0xEF, CHR 0xBB, CHR 0xBF]]"

definition space_length :: "string \<Rightarrow> nat" where
  "space_length s =
     (case find (\<lambda>w. prefix w s) white_space_codes of
        None \<Rightarrow> 0
      | Some w \<Rightarrow> length w)"

lemma space_length_Nil: "space_length [] = 0"
  by (simp add: space_length_def white_space_codes_def)

function skip_spaces :: "string \<Rightarrow> string" where
  "skip_spaces s =
     (if space_length s = 0 then s else skip_spaces (drop (space_length s) s))"
  by pat_completeness auto
termination
proof (relation "measure length", goal_cases)
  case (2 s)
  then have "s \<noteq> []"
    using space_length_Nil by auto
  with 2 show ?case by simp
qed simp

declare skip_spaces.simps [simp del]

lemma skip_spaces_length: "length (skip_spaces s) \<le> length s"
proof (induction s rule: skip_spaces.induct)
  case (1 s)
  show ?case
  proof (cases "space_length s = 0")
    case True
    then show ?thesis by (simp add: skip_spaces.simps)
  next
    case False
    with 1 have "length (skip_spaces (drop (space_length s) s)) \<le> length (drop (space_length s) s)"
      by simp
    with False show ?thesis
      by (subst skip_spaces.simps) simp
  qed
qed

section \<open>The \<^verbatim>\<open>path\<close> module of Node.js (POSIX flavour)\<close>

text \<open>
  \<^verbatim>\<open>path\<close> is a built-in module of the runtime, not code of the repository. The
  definitions below follow \<^verbatim>\<open>lib/path.js\<close> (\<^verbatim>\<open>posix\<close>): \<^verbatim>\<open>normalizeString\<close> walks the
  characters and keeps a result string; here the same walk is done on the
  \<^verbatim>\<open>/\<close>-separated segments. An empty segment and \<^verbatim>\<open>.\<close> are dropped; \<^verbatim>\<open>..\<close> removes
  the last kept segment unless there is none or it is \<^verbatim>\<open>..\<close> itself, in which case
  \<^verbatim>\<open>..\<close> is kept when \<^verbatim>\<open>allowAboveRoot\<close> holds and dropped otherwise.
\<close>

fun normalize_segments :: "bool \<Rightarrow> string list \<Rightarrow> string list \<Rightarrow> string list" where
  "normalize_segments allowAboveRoot res [] = res"
| "normalize_segments allowAboveRoot res (s # ss) =
     (if s = [] \<or> s = ''.'' then normalize_segments allowAboveRoot res ss
      else if s = ''..'' then
        (if res \<noteq> [] \<and> last res \<noteq> ''..''
           then normalize_segments allowAboveRoot (butlast res) ss
         else if allowAboveRoot
           then normalize_segments allowAboveRoot (res @ [''..'']) ss
         else normalize_segments allowAboveRoot res ss)
      else normalize_segments allowAboveRoot (res @ [s]) ss)"

definition normalizeString :: "string \<Rightarrow> bool \<Rightarrow> string" where
  "normalizeString p allowAboveRoot =
     join ''/'' (normalize_segments allowAboveRoot [] (split_on CHR ''/'' p))"

definition isAbsolute :: "string \<Rightarrow> bool" where
  "isAbsolute p = (case p of [] \<Rightarrow> False | c # _ \<Rightarrow> c = CHR ''/'')"

definition path_normalize :: "string \<Rightarrow> string" where
  "path_normalize p =
     (if p = [] then ''.''
      else
        let trailingSeparator = (last p = CHR ''/'');
            q = normalizeString p (\<not> isAbsolute p)
        in if q = [] then
             (if isAbsolute p then ''/''
              else if trailingSeparator then ''./'' else ''.'')
           else
             (let q' = (if trailingSeparator then q @ ''/'' else q)
              in if isAbsolute p then ''/'' @ q' else q'))"

text \<open>
  \<^verbatim>\<open>path.resolve(...args)\<close> reads its arguments from the right until the
  collected path is absolute, and falls back on the working directory when no
  argument is absolute. \<open>resolve_from\<close> takes the arguments right to left.
\<close>

fun resolve_from :: "string \<Rightarrow> string list \<Rightarrow> string \<Rightarrow> string \<times> bool" where
  "resolve_from cwd [] acc =
     (if cwd = [] then (acc, False) else (cwd @ ''/'' @ acc, isAbsolute cwd))"
| "resolve_from cwd (p # ps) acc =
     (if p = [] then resolve_from cwd ps acc
      else if isAbsolute p then (p @ ''/'' @ acc, True)
      else resolve_from cwd ps (p @ ''/'' @ acc))"

definition path_resolve :: "string \<Rightarrow> string list \<Rightarrow> string" where
  "path_resolve cwd args =
     (case resolve_from cwd (rev args) [] of
        (resolvedPath, resolvedAbsolute) \<Rightarrow>
          let n = normalizeString resolvedPath (\<not> resolvedAbsolute)
          in if resolvedAbsolute then ''/'' @ n
             else if n \<noteq> [] then n else ''.'')"

text \<open>\<^verbatim>\<open>path.join(...args)\<close>: the non-empty arguments joined by \<^verbatim>\<open>/\<close>, normalised.\<close>

definition path_join :: "string list \<Rightarrow> string" where
  "path_join args =
     (let joined = join ''/'' (filter (\<lambda>a. a \<noteq> []) args)
      in if joined = [] then ''.'' else path_normalize joined)"

text \<open>
  \<^verbatim>\<open>path.dirname(p)\<close>: trailing separators and the last segment are skipped from the
  right; what is left up to the separator before that segment is the result.
\<close>

definition path_dirname :: "string \<Rightarrow> string" where
  "path_dirname p =
     (if p = [] then ''.''
      else
        let isSep = (\<lambda>c. c = CHR ''/'');
            r = rev (dropWhile (\<lambda>c. \<not> isSep c) (dropWhile isSep (rev p)))
        in if length r \<le> 1 then (if isAbsolute p then ''/'' else ''.'')
           else if isAbsolute p \<and> length r = 2 then ''//''
           else butlast r)"

section \<open>Workspace Guard\<close>

text \<open>
  The process environment: \<^verbatim>\<open>__dirname\<close> of \<^verbatim>\<open>server.js\<close> and the working directory.
  \<^verbatim>\<open>const WORKSPACE_ROOT = path.join(__dirname, 'workspace')\<close>.
\<close>

record env =
  dirname :: string
  cwd :: string

definition WORKSPACE_ROOT :: "env \<Rightarrow> string" where
  "WORKSPACE_ROOT e = path_join [dirname e, ''workspace'']"

text \<open>
  \<^verbatim>\<open>resolveWorkspacePath(rel)\<close>. The argument is \<open>None\<close> for \<^verbatim>\<open>undefined\<close>;
  \<^verbatim>\<open>rel || ''\<close> also turns the empty string into \<^verbatim>\<open>''\<close>.
\<close>

definition resolveWorkspacePath :: "env \<Rightarrow> string option \<Rightarrow> js_error + string" where
  "resolveWorkspacePath e rel =
     (let target = path_normalize (case rel of None \<Rightarrow> [] | Some r \<Rightarrow> r);
          resolved = path_resolve (cwd e) [WORKSPACE_ROOT e, target]
      in if \<not> startsWith resolved (WORKSPACE_ROOT e)
         then Inl (Error ''Path outside workspace forbidden'')
         else Inr resolved)"

text \<open>
  A path lies in the workspace when it is the root directory itself or names
  something below it: the root followed by a separator is a prefix of it.
\<close>

definition within_workspace :: "env \<Rightarrow> string \<Rightarrow> bool" where
  "within_workspace e p =
     (p = WORKSPACE_ROOT e \<or> prefix (WORKSPACE_ROOT e @ ''/'') p)"

section \<open>The file system\<close>

text \<open>
  The file system is the external collaborator behind \<^verbatim>\<open>fs/promises\<close>. It is a
  map from absolute paths (the list of their segments) to nodes; the root
  directory always exists. Every operation takes the state and returns the state
  next to its result, so that a read that leaves the state alone does so by its
  definition, not by its type. Only the failures that depend on the tree are
  modelled (no permissions, no symbolic links, no full disk); the messages are
  those of the runtime on a POSIX system.
\<close>

datatype node = File string | Dir

type_synonym filesystem = "string list \<Rightarrow> node option"

text \<open>
  The message of a failed operation, as the runtime words it: the code and its
  description, the system call, and the path between single quotes.
\<close>

definition fs_error :: "string \<Rightarrow> string \<Rightarrow> string \<Rightarrow> js_error" where
  "fs_error description syscall p =
     Error (description @ '', '' @ syscall @ '' '' @ [CHR 0x27] @ p @ [CHR 0x27])"

definition path_key :: "string \<Rightarrow> string list" where
  "path_key p = filter (\<lambda>s. s \<noteq> []) (split_on CHR ''/'' p)"

definition node_at :: "filesystem \<Rightarrow> string list \<Rightarrow> node option" where
  "node_at fs k = (if k = [] then Some Dir else fs k)"

definition is_file :: "node option \<Rightarrow> bool" where
  "is_file n = (case n of Some (File _) \<Rightarrow> True | _ \<Rightarrow> False)"

text \<open>A file stands in the place of a directory on the way to the path.\<close>

definition file_on_the_way :: "filesystem \<Rightarrow> string list \<Rightarrow> bool" where
  "file_on_the_way fs k = list_ex (\<lambda>a. is_file (node_at fs a)) (butlast (prefixes k))"

text \<open>The failure of a look-up that finds nothing at the path.\<close>

definition not_found :: "filesystem \<Rightarrow> string \<Rightarrow> string \<Rightarrow> js_error" where
  "not_found fs syscall p =
     (if file_on_the_way fs (path_key p) then fs_error ''ENOTDIR: not a directory'' syscall p
      else fs_error ''ENOENT: no such file or directory'' syscall p)"

text \<open>\<^verbatim>\<open>fs.stat(p)\<close>.\<close>

definition fs_stat :: "string \<Rightarrow> filesystem \<Rightarrow> (js_error + node) \<times> filesystem" where
  "fs_stat p fs =
     (case node_at fs (path_key p) of
        None \<Rightarrow> (Inl (not_found fs ''stat'' p), fs)
      | Some n \<Rightarrow> (Inr n, fs))"

text \<open>\<^verbatim>\<open>fs.readFile(p, 'utf-8')\<close>.\<close>

definition fs_readFile :: "string \<Rightarrow> filesystem \<Rightarrow> (js_error + string) \<times> filesystem" where
  "fs_readFile p fs =
     (case node_at fs (path_key p) of
        None \<Rightarrow> (Inl (not_found fs ''open'' p), fs)
      | Some Dir \<Rightarrow> (Inl (Error ''EISDIR: illegal operation on a directory, read''), fs)
      | Some (File c) \<Rightarrow> (Inr c, fs))"

text \<open>
  \<^verbatim>\<open>fs.writeFile(p, data, 'utf-8')\<close>: the parent must be a directory and the
  target must not be one; the file is created or overwritten.
\<close>

definition fs_writeFile :: "string \<Rightarrow> string \<Rightarrow> filesystem \<Rightarrow> (js_error + unit) \<times> filesystem" where
  "fs_writeFile p data fs =
     (let k = path_key p in
      case node_at fs k of
        Some Dir \<Rightarrow> (Inl (fs_error ''EISDIR: illegal operation on a directory'' ''open'' p), fs)
      | _ \<Rightarrow>
        (case node_at fs (butlast k) of
           None \<Rightarrow> (Inl (not_found fs ''open'' p), fs)
         | Some (File _) \<Rightarrow> (Inl (fs_error ''ENOTDIR: not a directory'' ''open'' p), fs)
         | Some Dir \<Rightarrow> (Inr (), fs(k \<mapsto> File data))))"

text \<open>
  \<^verbatim>\<open>fs.mkdir(p, { recursive: true })\<close>: every missing ancestor and the directory
  itself are created; it fails when the path or an ancestor is a file.
\<close>

definition fs_mkdir :: "string \<Rightarrow> filesystem \<Rightarrow> (js_error + unit) \<times> filesystem" where
  "fs_mkdir p fs =
     (let k = path_key p in
      if is_file (node_at fs k)
        then (Inl (fs_error ''EEXIST: file already exists'' ''mkdir'' p), fs)
      else if list_ex (\<lambda>a. is_file (node_at fs a)) (prefixes k)
        then (Inl (fs_error ''ENOTDIR: not a directory'' ''mkdir'' p), fs)
      else (Inr (), (\<lambda>q. if prefix q k then Some Dir else fs q)))"

text \<open>
  \<^verbatim>\<open>fs.rm(p, { recursive: true, force: true })\<close>: the path and everything below it
  are removed; a missing path is no error, a file in the place of an ancestor is.
\<close>

definition fs_rm :: "string \<Rightarrow> filesystem \<Rightarrow> (js_error + unit) \<times> filesystem" where
  "fs_rm p fs =
     (let k = path_key p in
      if file_on_the_way fs k
        then (Inl (fs_error ''ENOTDIR: not a directory'' ''lstat'' p), fs)
      else (Inr (), (\<lambda>q. if prefix k q then None else fs q)))"

text \<open>\<^verbatim>\<open>existsSync(p)\<close>.\<close>

definition existsSync :: "string \<Rightarrow> filesystem \<Rightarrow> bool" where
  "existsSync p fs = (node_at fs (path_key p) \<noteq> None)"

text \<open>
  \<^verbatim>\<open>getFileContentOrEmpty(relPath)\<close>: every failure (a path outside the workspace,
  a missing path, a directory, a failed read) yields the empty string.
\<close>

definition getFileContentOrEmpty :: "env \<Rightarrow> string option \<Rightarrow> filesystem \<Rightarrow> string \<times> filesystem" where
  "getFileContentOrEmpty e relPath fs =
     (case resolveWorkspacePath e relPath of
        Inl _ \<Rightarrow> ([], fs)
      | Inr resolved \<Rightarrow>
        (case fs_stat resolved fs of
           (Inl _, fs1) \<Rightarrow> ([], fs1)
         | (Inr Dir, fs1) \<Rightarrow> ([], fs1)
         | (Inr (File _), fs1) \<Rightarrow>
           (case fs_readFile resolved fs1 of
              (Inl _, fs2) \<Rightarrow> ([], fs2)
            | (Inr content, fs2) \<Rightarrow> (content, fs2))))"

section \<open>Patch Engine\<close>

subsection \<open>The interface of the \<^verbatim>\<open>diff\<close> package\<close>

text \<open>
  \<^verbatim>\<open>createPatch\<close>, \<^verbatim>\<open>parsePatch\<close> and \<^verbatim>\<open>applyPatch\<close> are imported from the package
  \<^verbatim>\<open>diff\<close>. The server's functions take the imported function they call as their
  first argument, so that what is proved about them holds for whatever the
  package does. A number of JavaScript is \<^verbatim>\<open>NaN\<close> or an integer: the numbers are
  the line numbers and line counts of a patch, taken below \<open>2 ^ 53\<close>, where a
  number holds every integer and prints its decimal digits. A structured patch
  has the fields the server reads.
\<close>

datatype jsnum = NaN | Num int

record hunk =
  oldStart :: jsnum
  oldLines :: jsnum
  newStart :: jsnum
  newLines :: jsnum
  lines :: "string list"

record patch =
  oldFileName :: "string option"
  newFileName :: "string option"
  hunks :: "hunk list"

type_synonym createPatch_fn = "string \<Rightarrow> string \<Rightarrow> string \<Rightarrow> js_error + string"
type_synonym parsePatch_fn = "string \<Rightarrow> js_error + patch list"
type_synonym applyPatch_fn = "string \<Rightarrow> string \<Rightarrow> js_error + string option"

subsection \<open>Numbers and optional strings inside template literals\<close>

definition digit_char :: "nat \<Rightarrow> char" where
  "digit_char d = char_of (48 + d)"

fun show_nat :: "nat \<Rightarrow> string" where
  "show_nat n =
     (if n < 10 then [digit_char n]
      else show_nat (n div 10) @ [digit_char (n mod 10)])"

declare show_nat.simps [simp del]

definition show_jsnum :: "jsnum \<Rightarrow> string" where
  "show_jsnum x =
     (case x of
        NaN \<Rightarrow> ''NaN''
      | Num i \<Rightarrow> (if i < 0 then ''-'' @ show_nat (nat (- i)) else show_nat (nat i)))"

definition show_opt :: "string option \<Rightarrow> string" where
  "show_opt x = (case x of None \<Rightarrow> ''undefined'' | Some s \<Rightarrow> s)"

subsection \<open>\<^verbatim>\<open>makeUnifiedDiff\<close>, \<^verbatim>\<open>splitDiffIntoHunks\<close>, \<^verbatim>\<open>applySelectedHunks\<close>\<close>

text \<open>
  \<^verbatim>\<open>makeUnifiedDiff(pathLabel, oldStr, newStr)\<close>: on strings, \<^verbatim>\<open>oldStr || ''\<close> is
  \<^verbatim>\<open>oldStr\<close>. The two header arguments of \<^verbatim>\<open>createPatch\<close> are the constant \<^verbatim>\<open>''\<close>.
\<close>

definition makeUnifiedDiff :: "createPatch_fn \<Rightarrow> string \<Rightarrow> string \<Rightarrow> string \<Rightarrow> js_error + string" where
  "makeUnifiedDiff createPatch pathLabel oldStr newStr = createPatch pathLabel oldStr newStr"

record hunk_view =
  header :: string
  hunkText :: string

text \<open>The text the server builds for one hunk of the parsed patch.\<close>

definition hunk_to_view :: "hunk \<Rightarrow> hunk_view" where
  "hunk_to_view h =
     (let hd_line = ''@@ '' @ show_jsnum (oldStart h) @ '','' @ show_jsnum (oldLines h)
                    @ '' '' @ show_jsnum (newStart h) @ '','' @ show_jsnum (newLines h) @ '' @@'';
          body = join ''\<newline>'' (lines h)
      in \<lparr>header = hd_line, hunkText = hd_line @ ''\<newline>'' @ body @ ''\<newline>''\<rparr>)"

text \<open>\<^verbatim>\<open>s.split(sep)\<close> for a separator of one or more characters.\<close>

function split_str :: "string \<Rightarrow> string \<Rightarrow> string list" where
  "split_str sep [] = [[]]"
| "split_str sep (x # xs) =
     (if sep \<noteq> [] \<and> prefix sep (x # xs)
        then [] # split_str sep (drop (length sep) (x # xs))
      else (case split_str sep xs of
              [] \<Rightarrow> [[x]]
            | w # ws \<Rightarrow> (x # w) # ws))"
  by pat_completeness auto
termination
  by (relation "measure (\<lambda>(sep, s). length s)") auto

text \<open>
  \<^verbatim>\<open>splitDiffIntoHunks(unifiedDiff)\<close>: the hunks of every parsed patch in order;
  when \<^verbatim>\<open>parsePatch\<close> throws, the text is cut before every \<^verbatim>\<open>@@\<close> that starts a
  line after the first, the part before the first cut is dropped, and the header
  of a part is its first line (\<^verbatim>\<open>p.split('\n')[0]\<close>).
\<close>

definition splitDiffIntoHunks :: "parsePatch_fn \<Rightarrow> string \<Rightarrow> hunk_view list" where
  "splitDiffIntoHunks parsePatch unifiedDiff =
     (case parsePatch unifiedDiff of
        Inr patches \<Rightarrow> concat (map (\<lambda>p. map hunk_to_view (hunks p)) patches)
      | Inl _ \<Rightarrow>
          map (\<lambda>p. \<lparr>header = takeWhile (\<lambda>c. c \<noteq> CHR ''\<newline>'') (''@@'' @ p),
                    hunkText = ''@@'' @ p\<rparr>)
              (tl (split_str ''\<newline>@@'' unifiedDiff)))"

text \<open>
  \<^verbatim>\<open>applySelectedHunks(oldStr, originalUnifiedPatch, selectedHunkTexts)\<close>. The call of
  \<^verbatim>\<open>parsePatch\<close> stands outside the function's \<^verbatim>\<open>try\<close>, so its throw leaves the
  function (\<open>Inl\<close>); every other failure is the returned object
  \<^verbatim>\<open>{ ok: false, error }\<close>.
\<close>

datatype apply_result = ApplyOk string | ApplyFailed string

definition applySelectedHunks ::
  "parsePatch_fn \<Rightarrow> applyPatch_fn \<Rightarrow> string \<Rightarrow> string \<Rightarrow> string list \<Rightarrow> js_error + apply_result" where
  "applySelectedHunks parsePatch applyPatch oldStr originalUnifiedPatch selectedHunkTexts =
     (case parsePatch originalUnifiedPatch of
        Inl err \<Rightarrow> Inl err
      | Inr [] \<Rightarrow> Inr (ApplyFailed ''could not parse original patch'')
      | Inr (p # _) \<Rightarrow>
          let patchHeader = ''*** '' @ show_opt (oldFileName p) @ ''\<newline>''
                            @ ''--- '' @ show_opt (newFileName p) @ ''\<newline>'';
              patchBody = join ''\<newline>'' selectedHunkTexts;
              newPatch = patchHeader @ patchBody
          in (case applyPatch oldStr newPatch of
                Inl err \<Rightarrow> Inr (ApplyFailed (message err))
              | Inr None \<Rightarrow> Inr (ApplyFailed ''applyPatch returned false'')
              | Inr (Some result) \<Rightarrow> Inr (ApplyOk result)))"

subsection \<open>The package's \<^verbatim>\<open>parsePatch\<close>\<close>

text \<open>
  The package is an external dependency; its source is not part of the
  repository. The two functions below follow \<^verbatim>\<open>src/patch/parse.js\<close> and
  \<^verbatim>\<open>src/patch/apply.js\<close> of its version 5 with the default options (not strict,
  fuzz factor 0), for texts whose only line delimiter is the line feed. They are
  used where a statement needs the package's behaviour on a concrete text.

  The regular expressions: a keyword followed by white space at the start of a
  line.
\<close>

definition is_digit :: "char \<Rightarrow> bool" where
  "is_digit c = (c \<in> set ''0123456789'')"

definition keyword_then_space :: "string \<Rightarrow> string \<Rightarrow> bool" where
  "keyword_then_space kw l =
     (prefix kw l \<and> 0 < space_length (drop (length kw) l))"

text \<open>\<^verbatim>\<open>/^(\-\-\-|\+\+\+|@@)\s/\<close> ends the metadata of an index.\<close>

definition is_header_start :: "string \<Rightarrow> bool" where
  "is_header_start l =
     (keyword_then_space ''---'' l \<or> keyword_then_space ''+++'' l \<or> keyword_then_space ''@@'' l)"

text \<open>\<^verbatim>\<open>/^(Index:|diff|\-\-\-|\+\+\+)\s/\<close> ends the hunks of an index.\<close>

definition is_index_start :: "string \<Rightarrow> bool" where
  "is_index_start l =
     (keyword_then_space ''Index:'' l \<or> keyword_then_space ''diff'' l
      \<or> keyword_then_space ''---'' l \<or> keyword_then_space ''+++'' l)"

text \<open>
  The file name of a header line: the text after the white space up to the first
  tabulator, with a doubled backslash read as a single one and one pair of
  enclosing double quotes removed.
\<close>

fun unescape_backslashes :: "string \<Rightarrow> string" where
  "unescape_backslashes (a # b # r) =
     (if a = CHR 0x5C \<and> b = CHR 0x5C then CHR 0x5C # unescape_backslashes r
      else a # unescape_backslashes (b # r))"
| "unescape_backslashes r = r"

definition strip_quotes :: "string \<Rightarrow> string" where
  "strip_quotes s =
     (if 2 \<le> length s \<and> hd s = CHR 0x22 \<and> last s = CHR 0x22 then butlast (tl s) else s)"

definition header_file_name :: "string \<Rightarrow> string" where
  "header_file_name l =
     strip_quotes (unescape_backslashes
       (takeWhile (\<lambda>c. c \<noteq> CHR 0x09) (skip_spaces (drop 3 l))))"

definition empty_patch :: patch where
  "empty_patch = \<lparr>oldFileName = None, newFileName = None, hunks = []\<rparr>"

text \<open>\<^verbatim>\<open>parseFileHeader(index)\<close>: consumes one line when it is a \<^verbatim>\<open>---\<close> or \<^verbatim>\<open>+++\<close> header.\<close>

definition parseFileHeader :: "patch \<Rightarrow> string list \<Rightarrow> patch \<times> string list" where
  "parseFileHeader index ls =
     (case ls of
        [] \<Rightarrow> (index, ls)
      | l # rest \<Rightarrow>
          if keyword_then_space ''---'' l
            then (index\<lparr>oldFileName := Some (header_file_name l)\<rparr>, rest)
          else if keyword_then_space ''+++'' l
            then (index\<lparr>newFileName := Some (header_file_name l)\<rparr>, rest)
          else (index, ls))"

text \<open>
  The hunk header: the first place of the line where
  \<^verbatim>\<open>/@@ -(\d+)(?:,(\d+))? \+(\d+)(?:,(\d+))? @@/\<close> matches gives the four groups; the
  second and the fourth may be absent.
\<close>

definition digits_value :: "string \<Rightarrow> int" where
  "digits_value ds = foldl (\<lambda>acc c. 10 * acc + (int (of_char c) - 48)) 0 ds"

definition read_number :: "string \<Rightarrow> (int \<times> string) option" where
  "read_number s =
     (let ds = takeWhile is_digit s
      in if ds = [] then None else Some (digits_value ds, dropWhile is_digit s))"

definition read_literal :: "string \<Rightarrow> string \<Rightarrow> string option" where
  "read_literal lit s = (if prefix lit s then Some (drop (length lit) s) else None)"

definition read_range :: "string \<Rightarrow> (int \<times> int option \<times> string) option" where
  "read_range s =
     (case read_number s of
        None \<Rightarrow> None
      | Some (a, s1) \<Rightarrow>
          (case read_literal '','' s1 of
             None \<Rightarrow> Some (a, None, s1)
           | Some s2 \<Rightarrow>
               (case read_number s2 of
                  None \<Rightarrow> Some (a, None, s1)
                | Some (b, s3) \<Rightarrow> Some (a, Some b, s3))))"

definition header_match_here :: "string \<Rightarrow> (int \<times> int option \<times> int \<times> int option) option" where
  "header_match_here s =
     (case read_literal ''@@ -'' s of
        None \<Rightarrow> None
      | Some s1 \<Rightarrow>
          (case read_range s1 of
             None \<Rightarrow> None
           | Some (a, b, s2) \<Rightarrow>
               (case read_literal '' +'' s2 of
                  None \<Rightarrow> None
                | Some s3 \<Rightarrow>
                    (case read_range s3 of
                       None \<Rightarrow> None
                     | Some (c, d, s4) \<Rightarrow>
                         (case read_literal '' @@'' s4 of
                            None \<Rightarrow> None
                          | Some _ \<Rightarrow> Some (a, b, c, d))))))"

fun header_match :: "string \<Rightarrow> (int \<times> int option \<times> int \<times> int option) option" where
  "header_match [] = header_match_here []"
| "header_match (x # xs) =
     (case header_match_here (x # xs) of
        Some r \<Rightarrow> Some r
      | None \<Rightarrow> header_match xs)"

text \<open>
  The body of a hunk: the lines after the header whose first character is one of
  \<^verbatim>\<open>+\<close>, \<^verbatim>\<open>-\<close>, space and backslash. An empty line counts as context unless it is the
  last line of the text; a \<^verbatim>\<open>---\<close> line followed by a \<^verbatim>\<open>+++\<close> line and a \<^verbatim>\<open>@@\<close> line
  starts the next file. \<open>hunk_body_length\<close> is the number of body lines.
\<close>

definition operation_of :: "string \<Rightarrow> char" where
  "operation_of l = (case l of [] \<Rightarrow> CHR '' '' | c # _ \<Rightarrow> c)"

definition content_of :: "string \<Rightarrow> string" where
  "content_of l = (case l of [] \<Rightarrow> [] | _ # r \<Rightarrow> r)"

definition is_hunk_operation :: "char \<Rightarrow> bool" where
  "is_hunk_operation c = (c \<in> set [CHR ''+'', CHR ''-'', CHR '' '', CHR 0x5C])"

fun hunk_body_length :: "string list \<Rightarrow> nat" where
  "hunk_body_length [] = 0"
| "hunk_body_length (l # r) =
     (if prefix ''--- '' l
         \<and> (case r of a # b # _ \<Rightarrow> prefix ''+++ '' a \<and> prefix ''@@'' b | _ \<Rightarrow> False)
        then 0
      else if l = [] \<and> r = [] then 0
      else if is_hunk_operation (operation_of l) then Suc (hunk_body_length r)
      else 0)"

text \<open>
  \<^verbatim>\<open>parseHunk()\<close>. A header the expression does not match leaves the groups
  undefined: both starts are \<^verbatim>\<open>NaN\<close> and both counts are 1. A count of 0 raises
  the start by one; a count of 1 with no line of that side becomes 0.
\<close>

definition jsnum_add :: "jsnum \<Rightarrow> jsnum \<Rightarrow> jsnum" where
  "jsnum_add a b = (case (a, b) of (Num x, Num y) \<Rightarrow> Num (x + y) | _ \<Rightarrow> NaN)"

definition jsnum_sub :: "jsnum \<Rightarrow> jsnum \<Rightarrow> jsnum" where
  "jsnum_sub a b = (case (a, b) of (Num x, Num y) \<Rightarrow> Num (x - y) | _ \<Rightarrow> NaN)"

definition jsnum_le :: "jsnum \<Rightarrow> jsnum \<Rightarrow> bool" where
  "jsnum_le a b = (case (a, b) of (Num x, Num y) \<Rightarrow> x \<le> y | _ \<Rightarrow> False)"

definition parseHunk :: "string \<Rightarrow> string list \<Rightarrow> hunk" where
  "parseHunk chunkHeaderLine body =
     (let groups = header_match chunkHeaderLine;
          start_old = (case groups of None \<Rightarrow> NaN | Some (a, _, _, _) \<Rightarrow> Num a);
          count_old = (case groups of Some (_, Some b, _, _) \<Rightarrow> b | _ \<Rightarrow> 1);
          start_new = (case groups of None \<Rightarrow> NaN | Some (_, _, c, _) \<Rightarrow> Num c);
          count_new = (case groups of Some (_, _, _, Some d) \<Rightarrow> d | _ \<Rightarrow> 1);
          start_old' = (if count_old = 0 then jsnum_add start_old (Num 1) else start_old);
          start_new' = (if count_new = 0 then jsnum_add start_new (Num 1) else start_new);
          addCount = length (filter (\<lambda>l. operation_of l = CHR ''+'' \<or> operation_of l = CHR '' '') body);
          removeCount = length (filter (\<lambda>l. operation_of l = CHR ''-'' \<or> operation_of l = CHR '' '') body)
      in \<lparr>oldStart = start_old',
          oldLines = Num (if removeCount = 0 \<and> count_old = 1 then 0 else count_old),
          newStart = start_new',
          newLines = Num (if addCount = 0 \<and> count_new = 1 then 0 else count_new),
          lines = body\<rparr>)"

text \<open>
  The hunks of one index: a line that starts an index ends them, a line that
  starts with \<^verbatim>\<open>@@\<close> opens a hunk, any other line is skipped.
\<close>

fun parse_hunks :: "string list \<Rightarrow> hunk list \<times> string list" where
  "parse_hunks [] = ([], [])"
| "parse_hunks (l # r) =
     (if is_index_start l then ([], l # r)
      else if prefix ''@@'' l then
        (let n = hunk_body_length r
         in case parse_hunks (drop n r) of
              (hs, rest) \<Rightarrow> (parseHunk l (take n r) # hs, rest))
      else parse_hunks r)"

text \<open>\<^verbatim>\<open>parseIndex()\<close>: metadata, up to two file headers, hunks.\<close>

definition parseIndex :: "string list \<Rightarrow> patch \<times> string list" where
  "parseIndex ls =
     (case parseFileHeader empty_patch (dropWhile (\<lambda>l. \<not> is_header_start l) ls) of
        (index1, ls1) \<Rightarrow>
          (case parseFileHeader index1 ls1 of
             (index2, ls2) \<Rightarrow>
               (case parse_hunks ls2 of
                  (hs, rest) \<Rightarrow> (index2\<lparr>hunks := hs\<rparr>, rest))))"

text \<open>
  \<^verbatim>\<open>while (i < diffstr.length) parseIndex()\<close>. Every call of \<^verbatim>\<open>parseIndex\<close> consumes
  a line (lemma \<open>parseIndex_consumes\<close>), so the last branch is never taken.
\<close>

function parse_indexes :: "string list \<Rightarrow> patch list" where
  "parse_indexes ls =
     (if ls = [] then []
      else (case parseIndex ls of
              (index, rest) \<Rightarrow>
                if length rest < length ls then index # parse_indexes rest else [index]))"
  by pat_completeness auto
termination
  by (relation "measure length") auto

declare parse_indexes.simps [simp del]

definition jsdiff_parsePatch :: parsePatch_fn where
  "jsdiff_parsePatch uniDiff = Inr (parse_indexes (split_on CHR ''\<newline>'' uniDiff))"

subsection \<open>The package's \<^verbatim>\<open>applyPatch\<close>\<close>

text \<open>
  \<^verbatim>\<open>lines[toPos]\<close> is undefined outside the array and at \<^verbatim>\<open>NaN\<close>.
\<close>

definition line_at :: "string list \<Rightarrow> jsnum \<Rightarrow> string option" where
  "line_at ls pos =
     (case pos of
        NaN \<Rightarrow> None
      | Num i \<Rightarrow> if 0 \<le> i \<and> i < int (length ls) then Some (ls ! nat i) else None)"

text \<open>
  \<^verbatim>\<open>hunkFits(hunk, toPos)\<close> with fuzz factor 0: every context line and every
  removed line of the hunk equals the line of the text at its place.
\<close>

fun hunkFits :: "string list \<Rightarrow> string list \<Rightarrow> jsnum \<Rightarrow> bool" where
  "hunkFits ls [] toPos = True"
| "hunkFits ls (l # r) toPos =
     (if operation_of l = CHR '' '' \<or> operation_of l = CHR ''-''
        then line_at ls toPos = Some (content_of l) \<and> hunkFits ls r (jsnum_add toPos (Num 1))
      else hunkFits ls r toPos)"

text \<open>
  \<^verbatim>\<open>distanceIterator(start, minLine, maxLine)\<close> yields the offsets 1, -1, 2, -2, ...;
  a positive offset \<open>k\<close> as long as \<^verbatim>\<open>start + k <= maxLine\<close>, a negative one as long
  as \<^verbatim>\<open>minLine <= start - k\<close>. A comparison with \<^verbatim>\<open>NaN\<close> is false, so that side
  yields nothing.
\<close>

definition distance_bound :: "jsnum \<Rightarrow> jsnum \<Rightarrow> int" where
  "distance_bound hi lo = (case (hi, lo) of (Num x, Num y) \<Rightarrow> x - y | _ \<Rightarrow> 0)"

definition distanceIterator :: "jsnum \<Rightarrow> jsnum \<Rightarrow> jsnum \<Rightarrow> int list" where
  "distanceIterator start minLine maxLine =
     (let forward = distance_bound maxLine start;
          backward = distance_bound start minLine
      in concat (map (\<lambda>k. (if k \<le> forward then [k] else []) @ (if k \<le> backward then [- k] else []))
                     [1 .. max forward backward]))"

text \<open>
  The search of a place for every hunk, on the text as it was given: the first
  offset among 0 and those of the iterator at which the hunk fits. No such offset
  for some hunk makes \<^verbatim>\<open>applyPatch\<close> return \<^verbatim>\<open>false\<close> (\<open>None\<close>).
\<close>

fun fit_hunks :: "string list \<Rightarrow> hunk list \<Rightarrow> jsnum \<Rightarrow> int \<Rightarrow> (hunk \<times> int) list option" where
  "fit_hunks ls [] minLine offset = Some []"
| "fit_hunks ls (h # hs) minLine offset =
     (let maxLine = jsnum_sub (Num (int (length ls))) (oldLines h);
          toPos = jsnum_sub (jsnum_add (Num offset) (oldStart h)) (Num 1)
      in case find (\<lambda>localOffset. hunkFits ls (lines h) (jsnum_add toPos (Num localOffset)))
                   (0 # distanceIterator toPos minLine maxLine) of
           None \<Rightarrow> None
         | Some localOffset \<Rightarrow>
             (let offset' = offset + localOffset
              in case fit_hunks ls hs
                        (jsnum_add (jsnum_add (Num offset') (oldStart h)) (oldLines h)) offset' of
                   None \<Rightarrow> None
                 | Some placed \<Rightarrow> Some ((h, offset') # placed)))"

text \<open>
  \<^verbatim>\<open>lines.splice(toPos, ...)\<close>: \<^verbatim>\<open>NaN\<close> is index 0, a negative index counts from the
  end, an index beyond the end is the end.
\<close>

definition splice_index :: "jsnum \<Rightarrow> nat \<Rightarrow> nat" where
  "splice_index pos len =
     (case pos of
        NaN \<Rightarrow> 0
      | Num i \<Rightarrow> if i < 0 then nat (max (int len + i) 0) else min (nat i) len)"

record apply_state =
  text_lines :: "string list"
  toPos :: jsnum
  removeEOFNL :: bool
  addEOFNL :: bool

text \<open>One line of a hunk; \<open>prev\<close> is the hunk line before it, if any.\<close>

definition apply_line :: "string option \<Rightarrow> string \<Rightarrow> apply_state \<Rightarrow> apply_state" where
  "apply_line prev l st =
     (let k = splice_index (toPos st) (length (text_lines st)) in
      if operation_of l = CHR '' '' then st\<lparr>toPos := jsnum_add (toPos st) (Num 1)\<rparr>
      else if operation_of l = CHR ''-''
        then st\<lparr>text_lines := take k (text_lines st) @ drop (Suc k) (text_lines st)\<rparr>
      else if operation_of l = CHR ''+''
        then st\<lparr>text_lines := take k (text_lines st) @ content_of l # drop k (text_lines st),
                toPos := jsnum_add (toPos st) (Num 1)\<rparr>
      else if operation_of l = CHR 0x5C then
        (case prev of
           Some (c # _) \<Rightarrow>
             if c = CHR ''+'' then st\<lparr>removeEOFNL := True\<rparr>
             else if c = CHR ''-'' then st\<lparr>addEOFNL := True\<rparr>
             else st
         | _ \<Rightarrow> st)
      else st)"

fun apply_lines :: "string option \<Rightarrow> string list \<Rightarrow> apply_state \<Rightarrow> apply_state" where
  "apply_lines prev [] st = st"
| "apply_lines prev (l # r) st = apply_lines (Some l) r (apply_line prev l st)"

fun apply_hunks :: "(hunk \<times> int) list \<Rightarrow> jsnum \<Rightarrow> apply_state \<Rightarrow> apply_state" where
  "apply_hunks [] diffOffset st = st"
| "apply_hunks ((h, offset) # hs) diffOffset st =
     apply_hunks hs
       (jsnum_add diffOffset (jsnum_sub (newLines h) (oldLines h)))
       (apply_lines None (lines h)
          (st\<lparr>toPos := jsnum_sub (jsnum_add (jsnum_add (oldStart h) (Num offset)) diffOffset) (Num 1)\<rparr>))"

text \<open>
  The end of the text: with \<^verbatim>\<open>removeEOFNL\<close> the trailing empty lines are popped,
  otherwise with \<^verbatim>\<open>addEOFNL\<close> an empty line is pushed; the lines are joined with
  their delimiters. (The package pops in a loop that would not end on a text of
  empty lines only; such a text is given the empty result here.)
\<close>

definition finish_lines :: "apply_state \<Rightarrow> string" where
  "finish_lines st =
     join ''\<newline>''
       (if removeEOFNL st then rev (dropWhile (\<lambda>l. l = []) (rev (text_lines st)))
        else if addEOFNL st then text_lines st @ [[]]
        else text_lines st)"

definition jsdiff_applyPatch :: applyPatch_fn where
  "jsdiff_applyPatch source uniDiff =
     (case jsdiff_parsePatch uniDiff of
        Inl err \<Rightarrow> Inl err
      | Inr [] \<Rightarrow> Inl (Error ''Cannot read properties of undefined (reading hunks)'')
      | Inr [p] \<Rightarrow>
          (let ls = split_on CHR ''\<newline>'' source
           in case fit_hunks ls (hunks p) (Num 0) 0 of
                None \<Rightarrow> Inr None
              | Some placed \<Rightarrow>
                  Inr (Some (finish_lines
                    (apply_hunks placed (Num 0)
                       \<lparr>text_lines = ls, toPos = Num 0, removeEOFNL = False, addEOFNL = False\<rparr>))))
      | Inr (_ # _ # _) \<Rightarrow> Inl (Error ''applyPatch only works with a single input.''))"

section \<open>Action Parser and Repairer\<close>

subsection \<open>\<^verbatim>\<open>lightweightRepair\<close>\<close>

definition fence :: string where
  "fence = [CHR 0x60, CHR 0x60, CHR 0x60]"

text \<open>\<^verbatim>\<open>replace(/```(?:json)?\n?/g, '')\<close>.\<close>

function strip_fences :: "string \<Rightarrow> string" where
  "strip_fences [] = []"
| "strip_fences (c # t) =
     (if prefix fence (c # t) then
        (let r = drop 3 (c # t);
             r1 = (if prefix ''json'' r then drop 4 r else r);
             r2 = (if prefix ''\<newline>'' r1 then drop 1 r1 else r1)
         in strip_fences r2)
      else c # strip_fences t)"
  by pat_completeness auto
termination
  by (relation "measure length") auto

text \<open>\<^verbatim>\<open>replace(/```$/g, '')\<close>.\<close>

definition strip_final_fence :: "string \<Rightarrow> string" where
  "strip_final_fence s = (if suffix fence s then take (length s - 3) s else s)"

text \<open>
  \<^verbatim>\<open>block.slice(first, last + 1)\<close> between the first \<^verbatim>\<open>{\<close> and the last \<^verbatim>\<open>}\<close>, when both
  exist and the last comes after the first.
\<close>

definition slice_braces :: "string \<Rightarrow> string" where
  "slice_braces block =
     (if CHR ''{'' \<in> set block \<and> CHR ''}'' \<in> set block then
        (let first = length (takeWhile (\<lambda>c. c \<noteq> CHR ''{'') block);
             last_ix = length block - 1 - length (takeWhile (\<lambda>c. c \<noteq> CHR ''}'') (rev block))
         in if first < last_ix then take (last_ix + 1 - first) (drop first block) else block)
      else block)"

text \<open>\<^verbatim>\<open>replace(/,\s*([}\]])/g, '$1')\<close>.\<close>

function strip_trailing_commas :: "string \<Rightarrow> string" where
  "strip_trailing_commas [] = []"
| "strip_trailing_commas (c # t) =
     (if c = CHR '','' then
        (case skip_spaces t of
           [] \<Rightarrow> c # strip_trailing_commas t
         | d # u \<Rightarrow>
             if d = CHR ''}'' \<or> d = CHR '']''
               then d # strip_trailing_commas (tl (skip_spaces t))
             else c # strip_trailing_commas t)
      else c # strip_trailing_commas t)"
  by pat_completeness auto
termination
proof (relation "measure length", goal_cases)
  case (3 c t d u)
  have "length (skip_spaces t) \<le> length t"
    by (rule skip_spaces_length)
  with 3 show ?case by simp
qed auto

text \<open>Unmatched opening braces are closed at the end.\<close>

definition balance_braces :: "string \<Rightarrow> string" where
  "balance_braces block =
     (let opening = length (filter (\<lambda>c. c = CHR ''{'') block);
          closing = length (filter (\<lambda>c. c = CHR ''}'') block)
      in if closing < opening then block @ replicate (opening - closing) CHR ''}'' else block)"

definition lightweightRepair :: "string \<Rightarrow> string" where
  "lightweightRepair text =
     balance_braces (strip_trailing_commas (slice_braces (strip_final_fence (strip_fences text))))"

subsection \<open>\<^verbatim>\<open>tryParseJSONBlock\<close> and the repair pass\<close>

text \<open>
  A parsed JSON value. \<^verbatim>\<open>JSON.parse\<close> is the runtime's; it is a parameter that
  either throws or returns a value. \<open>truthy\<close> is the test \<^verbatim>\<open>if (v)\<close>.
\<close>

datatype json =
    JNull
  | JBool bool
  | JNum rat
  | JStr string
  | JArr "json list"
  | JObj "(string \<times> json) list"

type_synonym JSON_parse_fn = "string \<Rightarrow> js_error + json"

fun truthy :: "json \<Rightarrow> bool" where
  "truthy JNull = False"
| "truthy (JBool b) = b"
| "truthy (JNum n) = (n \<noteq> 0)"
| "truthy (JStr s) = (s \<noteq> [])"
| "truthy (JArr _) = True"
| "truthy (JObj _) = True"

text \<open>\<^verbatim>\<open>tryParseJSONBlock(text)\<close>: whatever is thrown becomes \<^verbatim>\<open>null\<close>.\<close>

definition tryParseJSONBlock :: "JSON_parse_fn \<Rightarrow> string \<Rightarrow> json" where
  "tryParseJSONBlock JSON_parse text =
     (case JSON_parse (lightweightRepair text) of
        Inl _ \<Rightarrow> JNull
      | Inr v \<Rightarrow> v)"

text \<open>
  The model backends (\<^verbatim>\<open>callOpenAIChat\<close>, \<^verbatim>\<open>callQwen\<close>) are network calls: a
  parameter from the provider, the system text and the user text to the
  generated text, or a throw.
\<close>

type_synonym backend_fn = "string \<Rightarrow> string \<Rightarrow> string \<Rightarrow> js_error + string"

definition repair_system :: string where
  "repair_system = ''You are a JSON repair assistant. The user gave an output that should contain a single JSON object. Return only the corrected JSON object, exactly one object, with valid JSON syntax. Do not include any explanation, backticks or other text.''"

definition repairJSONWithLLM :: "backend_fn \<Rightarrow> string \<Rightarrow> string \<Rightarrow> js_error + string" where
  "repairJSONWithLLM backend rawText provider =
     (let user = ''Here is the original output that failed to parse:\<newline>\<newline>'' @ rawText
                 @ ''\<newline>\<newline>Return just the corrected JSON object.''
      in if provider = ''openai'' then backend ''openai'' repair_system user
         else if provider = ''qwen'' then backend ''qwen'' repair_system user
         else Inl (Error ''unknown provider for repair''))"

text \<open>
  \<^verbatim>\<open>if (!parsed.assistant_text) parsed.assistant_text = repairText\<close>: an object gets
  the field; on a number, a string or \<^verbatim>\<open>true\<close> the assignment throws in strict
  mode and the enclosing \<^verbatim>\<open>catch\<close> swallows it; the property an array would get is
  read by nothing in this stage.
\<close>

definition get_field :: "json \<Rightarrow> string \<Rightarrow> json option" where
  "get_field v k = (case v of JObj kvs \<Rightarrow> map_of kvs k | _ \<Rightarrow> None)"

definition adopt_narrative :: "json \<Rightarrow> string \<Rightarrow> json" where
  "adopt_narrative parsed repairText =
     (case parsed of
        JObj kvs \<Rightarrow>
          (case map_of kvs ''assistant_text'' of
             None \<Rightarrow> JObj (kvs @ [(''assistant_text'', JStr repairText)])
           | Some v \<Rightarrow>
               if truthy v then parsed
               else JObj (map (\<lambda>(k, w). if k = ''assistant_text'' then (k, JStr repairText) else (k, w)) kvs))
      | _ \<Rightarrow> parsed)"

text \<open>
  The value of \<^verbatim>\<open>parsed\<close> after the parse and the single repair pass of the
  \<^verbatim>\<open>/assistant\<close> handler.
\<close>

definition parse_with_repair ::
  "JSON_parse_fn \<Rightarrow> backend_fn \<Rightarrow> string \<Rightarrow> bool \<Rightarrow> string \<Rightarrow> json" where
  "parse_with_repair JSON_parse backend provider repairOnFail rawText =
     (let parsed = tryParseJSONBlock JSON_parse rawText in
      if \<not> truthy parsed \<and> repairOnFail then
        (case repairJSONWithLLM backend rawText provider of
           Inl _ \<Rightarrow> parsed
         | Inr repairText \<Rightarrow>
             (let parsed' = tryParseJSONBlock JSON_parse repairText
              in if truthy parsed' then adopt_narrative parsed' repairText else parsed'))
      else parsed)"

section \<open>Actions\<close>

text \<open>
  One element of an \<^verbatim>\<open>actions\<close> array is \<open>None\<close> for \<^verbatim>\<open>null\<close> and otherwise an
  object whose fields, when present, have the types of the wire contract:
  \<^verbatim>\<open>action\<close>, \<^verbatim>\<open>path\<close>, \<^verbatim>\<open>content\<close> and \<^verbatim>\<open>originalDiff\<close> strings, \<^verbatim>\<open>selectedHunks\<close> an
  array of strings, \<^verbatim>\<open>isDirectory\<close> read as a condition. An absent field is \<open>None\<close>.
\<close>

record action_obj =
  action :: "string option"
  path :: "string option"
  content :: "string option"
  isDirectory :: bool
  selectedHunks :: "string list option"
  originalDiff :: "string option"

text \<open>\<^verbatim>\<open>v ?? ''\<close> and \<^verbatim>\<open>v || ''\<close> on an optional string are the same string.\<close>

definition or_empty :: "string option \<Rightarrow> string" where
  "or_empty v = (case v of None \<Rightarrow> [] | Some s \<Rightarrow> s)"

text \<open>\<^verbatim>\<open>!act || !act.action || !act.path\<close>.\<close>

definition invalid_action :: "action_obj option \<Rightarrow> bool" where
  "invalid_action act =
     (case act of
        None \<Rightarrow> True
      | Some a \<Rightarrow> or_empty (action a) = [] \<or> or_empty (path a) = [])"

section \<open>Proposal Builder\<close>

text \<open>
  One element of \<^verbatim>\<open>diffs\<close>: \<^verbatim>\<open>{ action, ok: true, diff, hunks }\<close> or
  \<^verbatim>\<open>{ action, ok: false, error }\<close>.
\<close>

datatype diff_entry =
    DiffOk "action_obj option" string "hunk_view list"
  | DiffFailed "action_obj option" string

fun entry_ok :: "diff_entry \<Rightarrow> bool" where
  "entry_ok (DiffOk _ _ _) = True"
| "entry_ok (DiffFailed _ _) = False"

fun entry_action :: "diff_entry \<Rightarrow> action_obj option" where
  "entry_action (DiffOk act _ _) = act"
| "entry_action (DiffFailed act _) = act"

fun entry_error :: "diff_entry \<Rightarrow> string option" where
  "entry_error (DiffOk _ _ _) = None"
| "entry_error (DiffFailed _ msg) = Some msg"

text \<open>
  The three branches of the loop body share their shape: the current content,
  the diff against the proposed content, the hunks. A throw of the diff is
  caught by the \<^verbatim>\<open>catch\<close> of the loop body.
\<close>

definition preview ::
  "createPatch_fn \<Rightarrow> parsePatch_fn \<Rightarrow> env \<Rightarrow> action_obj option \<Rightarrow> string \<Rightarrow> string
     \<Rightarrow> filesystem \<Rightarrow> diff_entry \<times> filesystem" where
  "preview createPatch parsePatch e act p after fs =
     (case getFileContentOrEmpty e (Some p) fs of
        (beforeText, fs1) \<Rightarrow>
          (case makeUnifiedDiff createPatch p beforeText after of
             Inl err \<Rightarrow> (DiffFailed act (message err), fs1)
           | Inr d \<Rightarrow> (DiffOk act d (splitDiffIntoHunks parsePatch d), fs1)))"

definition build_entry ::
  "createPatch_fn \<Rightarrow> parsePatch_fn \<Rightarrow> env \<Rightarrow> action_obj option
     \<Rightarrow> filesystem \<Rightarrow> diff_entry \<times> filesystem" where
  "build_entry createPatch parsePatch e act fs =
     (if invalid_action act then (DiffFailed act ''invalid action object'', fs)
      else
        (case act of
           None \<Rightarrow> (DiffFailed act ''invalid action object'', fs)
         | Some a \<Rightarrow>
             (let k = or_empty (action a); p = or_empty (path a) in
              if k = ''delete'' then preview createPatch parsePatch e act p [] fs
              else if k = ''create'' then
                preview createPatch parsePatch e act p
                  (if isDirectory a then [] else or_empty (content a)) fs
              else if k = ''edit'' then
                preview createPatch parsePatch e act p (or_empty (content a)) fs
              else (DiffFailed act ''unknown action type'', fs))))"

text \<open>\<^verbatim>\<open>for (const act of parsed.actions || [])\<close>, one pushed entry per turn.\<close>

fun build_diffs ::
  "createPatch_fn \<Rightarrow> parsePatch_fn \<Rightarrow> env \<Rightarrow> action_obj option list
     \<Rightarrow> filesystem \<Rightarrow> diff_entry list \<times> filesystem" where
  "build_diffs createPatch parsePatch e [] fs = ([], fs)"
| "build_diffs createPatch parsePatch e (act # acts) fs =
     (case build_entry createPatch parsePatch e act fs of
        (d, fs1) \<Rightarrow>
          (case build_diffs createPatch parsePatch e acts fs1 of
             (ds, fs2) \<Rightarrow> (d # ds, fs2)))"

subsection \<open>The parse stage of the \<^verbatim>\<open>/assistant\<close> handler\<close>

text \<open>
  After the model call: when \<^verbatim>\<open>parsed\<close> is falsy the handler answers with the
  narrative alone; otherwise it goes on to build the diffs from \<^verbatim>\<open>parsed\<close>.
\<close>

record proposal_response =
  provider :: string
  assistant_text :: string
  raw_model_text :: string
  actions :: "json list"
  diffs :: "diff_entry list"

datatype parse_stage = NarrativeOnly proposal_response | Proceed json

definition assistant_parse_stage ::
  "JSON_parse_fn \<Rightarrow> backend_fn \<Rightarrow> string \<Rightarrow> bool \<Rightarrow> string \<Rightarrow> parse_stage" where
  "assistant_parse_stage JSON_parse backend prov repairOnFail rawText =
     (let parsed = parse_with_repair JSON_parse backend prov repairOnFail rawText in
      if \<not> truthy parsed then
        NarrativeOnly \<lparr>provider = prov, assistant_text = rawText, raw_model_text = rawText,
                       actions = [], diffs = []\<rparr>
      else Proceed parsed)"

section \<open>Version Trail\<close>

text \<open>
  \<^verbatim>\<open>exec(cmd, { cwd: WORKSPACE_ROOT })\<close> runs the version-control program: a
  parameter from the command line and the file system to a throw or a normal
  end, and the file system after the command.
\<close>

type_synonym exec_fn = "string \<Rightarrow> filesystem \<Rightarrow> (js_error + unit) \<times> filesystem"

record git_result =
  git_ok :: bool
  git_error :: "string option"

definition dquote :: string where
  "dquote = [CHR 0x22]"

text \<open>\<^verbatim>\<open>ensureGitRepo()\<close>: a failed \<^verbatim>\<open>git init\<close> is only logged.\<close>

definition ensureGitRepo :: "exec_fn \<Rightarrow> env \<Rightarrow> filesystem \<Rightarrow> filesystem" where
  "ensureGitRepo exec e fs =
     (if \<not> existsSync (path_join [WORKSPACE_ROOT e, ''.git'']) fs
        then snd (exec ''git init'' fs)
      else fs)"

text \<open>\<^verbatim>\<open>message.replace(/"/g, '\\"')\<close>.\<close>

definition escape_quotes :: "string \<Rightarrow> string" where
  "escape_quotes m = concat (map (\<lambda>c. if c = CHR 0x22 then [CHR 0x5C, CHR 0x22] else [c]) m)"

definition gitCommit ::
  "exec_fn \<Rightarrow> env \<Rightarrow> string list \<Rightarrow> string \<Rightarrow> filesystem \<Rightarrow> git_result \<times> filesystem" where
  "gitCommit exec e paths msg fs =
     (let fs1 = ensureGitRepo exec e fs;
          add_cmd = (if paths \<noteq> []
                       then ''git add -- '' @ join '' '' (map (\<lambda>p. dquote @ p @ dquote) paths)
                     else ''git add -A'')
      in case exec add_cmd fs1 of
           (Inl err, fs2) \<Rightarrow> (\<lparr>git_ok = False, git_error = Some (message err)\<rparr>, fs2)
         | (Inr _, fs2) \<Rightarrow>
             (let commitMsg = (if msg \<noteq> [] then escape_quotes msg else ''Assistant applied changes'')
              in case exec (''git commit -m '' @ dquote @ commitMsg @ dquote) fs2 of
                   (Inl err, fs3) \<Rightarrow> (\<lparr>git_ok = False, git_error = Some (message err)\<rparr>, fs3)
                 | (Inr _, fs3) \<Rightarrow> (\<lparr>git_ok = True, git_error = None\<rparr>, fs3)))"

section \<open>Apply Coordinator\<close>

text \<open>
  One element of \<^verbatim>\<open>actionsApplied\<close>: \<^verbatim>\<open>{ ok: true, action: kind, path, ... }\<close> with the
  optional \<^verbatim>\<open>isDirectory: true\<close> and \<^verbatim>\<open>hunksApplied\<close>, or
  \<^verbatim>\<open>{ ok: false, action: act, error }\<close>.
\<close>

datatype outcome =
    Applied string string bool "nat option"
  | Failed "action_obj option" string

fun outcome_ok :: "outcome \<Rightarrow> bool" where
  "outcome_ok (Applied _ _ _ _) = True"
| "outcome_ok (Failed _ _) = False"

text \<open>The state of the loop: the file system and \<^verbatim>\<open>pathsTouched\<close>.\<close>

type_synonym apply_loop_state = "filesystem \<times> string list"

text \<open>
  The write of the whole content, as in the branch of a file \<^verbatim>\<open>create\<close> and in the
  branch of an \<^verbatim>\<open>edit\<close> without selected hunks: parent directories, the file,
  \<^verbatim>\<open>pathsTouched\<close>, the outcome. A throw ends the branch in the \<^verbatim>\<open>catch\<close> of the
  loop body, with what was done before it kept.
\<close>

definition write_whole ::
  "string \<Rightarrow> action_obj option \<Rightarrow> string \<Rightarrow> string \<Rightarrow> string
     \<Rightarrow> apply_loop_state \<Rightarrow> outcome \<times> apply_loop_state" where
  "write_whole kind act relPath resolved data st =
     (case fs_mkdir (path_dirname resolved) (fst st) of
        (Inl err, fs1) \<Rightarrow> (Failed act (message err), (fs1, snd st))
      | (Inr _, fs1) \<Rightarrow>
          (case fs_writeFile resolved data fs1 of
             (Inl err, fs2) \<Rightarrow> (Failed act (message err), (fs2, snd st))
           | (Inr _, fs2) \<Rightarrow> (Applied kind relPath False None, (fs2, snd st @ [relPath]))))"

text \<open>The branch of an \<^verbatim>\<open>edit\<close> that carries a non-empty \<^verbatim>\<open>selectedHunks\<close> array.\<close>

definition edit_selected ::
  "parsePatch_fn \<Rightarrow> applyPatch_fn \<Rightarrow> env \<Rightarrow> action_obj option \<Rightarrow> action_obj
     \<Rightarrow> string \<Rightarrow> string \<Rightarrow> string list
     \<Rightarrow> apply_loop_state \<Rightarrow> outcome \<times> apply_loop_state" where
  "edit_selected parsePatch applyPatch e act a relPath resolved selected st =
     (case getFileContentOrEmpty e (Some relPath) (fst st) of
        (beforeText, fs1) \<Rightarrow>
          (case applySelectedHunks parsePatch applyPatch beforeText (or_empty (originalDiff a)) selected of
             Inl err \<Rightarrow> (Failed act (message err), (fs1, snd st))
           | Inr (ApplyFailed msg) \<Rightarrow> (Failed act msg, (fs1, snd st))
           | Inr (ApplyOk result) \<Rightarrow>
               (case fs_writeFile resolved result fs1 of
                  (Inl err, fs2) \<Rightarrow> (Failed act (message err), (fs2, snd st))
                | (Inr _, fs2) \<Rightarrow>
                    (Applied ''edit'' relPath False (Some (length selected)),
                     (fs2, snd st @ [relPath])))))"

text \<open>The body of the loop over \<^verbatim>\<open>actions\<close>, with its \<^verbatim>\<open>try\<close> and \<^verbatim>\<open>catch\<close>.\<close>

definition apply_action ::
  "parsePatch_fn \<Rightarrow> applyPatch_fn \<Rightarrow> env \<Rightarrow> action_obj option
     \<Rightarrow> apply_loop_state \<Rightarrow> outcome \<times> apply_loop_state" where
  "apply_action parsePatch applyPatch e act st =
     (if invalid_action act then (Failed act ''invalid action object'', st)
      else
        (case act of
           None \<Rightarrow> (Failed act ''invalid action object'', st)
         | Some a \<Rightarrow>
             (let k = or_empty (action a); relPath = or_empty (path a) in
              case resolveWorkspacePath e (Some relPath) of
                Inl err \<Rightarrow> (Failed act (message err), st)
              | Inr resolved \<Rightarrow>
                  if k = ''create'' then
                    (if isDirectory a then
                       (case fs_mkdir resolved (fst st) of
                          (Inl err, fs1) \<Rightarrow> (Failed act (message err), (fs1, snd st))
                        | (Inr _, fs1) \<Rightarrow> (Applied ''create'' relPath True None, (fs1, snd st)))
                     else write_whole ''create'' act relPath resolved (or_empty (content a)) st)
                  else if k = ''edit'' then
                    (case selectedHunks a of
                       Some (h # hs) \<Rightarrow>
                         edit_selected parsePatch applyPatch e act a relPath resolved (h # hs) st
                     | _ \<Rightarrow> write_whole ''edit'' act relPath resolved (or_empty (content a)) st)
                  else if k = ''delete'' then
                    (case fs_rm resolved (fst st) of
                       (Inl err, fs1) \<Rightarrow> (Failed act (message err), (fs1, snd st))
                     | (Inr _, fs1) \<Rightarrow>
                         (Applied ''delete'' relPath False None, (fs1, snd st @ [relPath])))
                  else (Failed act ''unknown action type'', st))))"

fun apply_actions ::
  "parsePatch_fn \<Rightarrow> applyPatch_fn \<Rightarrow> env \<Rightarrow> action_obj option list
     \<Rightarrow> apply_loop_state \<Rightarrow> outcome list \<times> apply_loop_state" where
  "apply_actions parsePatch applyPatch e [] st = ([], st)"
| "apply_actions parsePatch applyPatch e (act # acts) st =
     (case apply_action parsePatch applyPatch e act st of
        (out, st1) \<Rightarrow>
          (case apply_actions parsePatch applyPatch e acts st1 of
             (outs, st2) \<Rightarrow> (out # outs, st2)))"

text \<open>
  The read-back: the outcomes with \<^verbatim>\<open>ok\<close> and the action \<^verbatim>\<open>create\<close> or \<^verbatim>\<open>edit\<close>, each
  read again and stored under its path; a failed read stores a marker text.

  \<^verbatim>\<open>changedFiles\<close> is an object literal, and \<^verbatim>\<open>changedFiles[k] = v\<close> with a string
  \<open>v\<close> makes the property \<open>k\<close> for every key but \<^verbatim>\<open>__proto__\<close>: that key is the
  accessor of the prototype, whose setter ignores a string, so the object stays
  as it was and the reply carries no such key.
\<close>

definition set_property :: "(string \<rightharpoonup> string) \<Rightarrow> string \<Rightarrow> string \<Rightarrow> (string \<rightharpoonup> string)" where
  "set_property obj k v = (if k = ''__proto__'' then obj else obj(k \<mapsto> v))"

fun changed_path :: "outcome \<Rightarrow> string option" where
  "changed_path (Applied kind relPath _ _) =
     (if kind = ''create'' \<or> kind = ''edit'' then Some relPath else None)"
| "changed_path (Failed _ _) = None"

definition failed_to_read :: "js_error \<Rightarrow> string" where
  "failed_to_read err = ''<<failed to read: '' @ message err @ ''>>''"

fun read_back ::
  "env \<Rightarrow> string list \<Rightarrow> (string \<rightharpoonup> string) \<Rightarrow> filesystem
     \<Rightarrow> (string \<rightharpoonup> string) \<times> filesystem" where
  "read_back e [] changed fs = (changed, fs)"
| "read_back e (p # ps) changed fs =
     (case resolveWorkspacePath e (Some p) of
        Inl err \<Rightarrow> read_back e ps (set_property changed p (failed_to_read err)) fs
      | Inr resolved \<Rightarrow>
          (case fs_readFile resolved fs of
             (Inl err, fs1) \<Rightarrow> read_back e ps (set_property changed p (failed_to_read err)) fs1
           | (Inr c, fs1) \<Rightarrow> read_back e ps (set_property changed p c) fs1))"

subsection \<open>The \<^verbatim>\<open>/assistant/apply\<close> handler\<close>

datatype actions_field = Missing | NotArray | Array "action_obj option list"

record apply_request =
  req_actions :: actions_field
  commitMessage :: "string option"

record apply_response =
  ok :: bool
  actionsApplied :: "outcome list"
  gitResult :: git_result
  changedFiles :: "string \<rightharpoonup> string"

datatype http_reply = Status400 string | Status500 string | Json200 (reply_body: apply_response)

definition apply_handler ::
  "parsePatch_fn \<Rightarrow> applyPatch_fn \<Rightarrow> exec_fn \<Rightarrow> env \<Rightarrow> apply_request
     \<Rightarrow> filesystem \<Rightarrow> http_reply \<times> filesystem" where
  "apply_handler parsePatch applyPatch exec e req fs =
     (case req_actions req of
        NotArray \<Rightarrow> (Status400 ''actions must be array'', fs)
      | field \<Rightarrow>
          (let acts = (case field of Array xs \<Rightarrow> xs | _ \<Rightarrow> []);
               msg = (case commitMessage req of None \<Rightarrow> ''Assistant applied changes'' | Some m \<Rightarrow> m)
           in case apply_actions parsePatch applyPatch e acts (fs, []) of
                (outs, (fs1, pathsTouched)) \<Rightarrow>
                  (case gitCommit exec e pathsTouched msg fs1 of
                     (git, fs2) \<Rightarrow>
                       (case read_back e (List.map_filter changed_path outs) Map.empty fs2 of
                          (changed, fs3) \<Rightarrow>
                            (Json200 \<lparr>ok = True, actionsApplied = outs, gitResult = git,
                                      changedFiles = changed\<rparr>, fs3)))))"

section \<open>Terms of the statements\<close>

subsection \<open>Predicates\<close>

text \<open>A selective apply has failed when it threw or returned \<^verbatim>\<open>{ ok: false }\<close>.\<close>

definition apply_failed :: "js_error + apply_result \<Rightarrow> bool" where
  "apply_failed res = (case res of Inr (ApplyOk _) \<Rightarrow> False | _ \<Rightarrow> True)"

definition apply_error :: "js_error + apply_result \<Rightarrow> string" where
  "apply_error res =
     (case res of
        Inl err \<Rightarrow> message err
      | Inr (ApplyFailed msg) \<Rightarrow> msg
      | Inr (ApplyOk _) \<Rightarrow> [])"

text \<open>The structured parse of a text fails: it throws or yields a falsy value.\<close>

definition parse_fails :: "JSON_parse_fn \<Rightarrow> string \<Rightarrow> bool" where
  "parse_fails JSON_parse t =
     (case JSON_parse (lightweightRepair t) of Inl _ \<Rightarrow> True | Inr v \<Rightarrow> \<not> truthy v)"

text \<open>
  The content of the file at a path of the workspace, and the empty text where
  there is no file: outside the workspace, at a missing path, at a directory.
\<close>

definition current_content :: "env \<Rightarrow> filesystem \<Rightarrow> string \<Rightarrow> string" where
  "current_content e fs p =
     (case resolveWorkspacePath e (Some p) of
        Inl _ \<Rightarrow> []
      | Inr resolved \<Rightarrow>
          (case node_at fs (path_key resolved) of
             Some (File c) \<Rightarrow> c
           | _ \<Rightarrow> []))"

text \<open>An action of a kind other than \<^verbatim>\<open>create\<close>, \<^verbatim>\<open>edit\<close> and \<^verbatim>\<open>delete\<close>.\<close>

definition unknown_kind :: "action_obj option \<Rightarrow> bool" where
  "unknown_kind act =
     (case act of
        None \<Rightarrow> False
      | Some a \<Rightarrow> or_empty (action a) \<notin> set [''create'', ''edit'', ''delete''])"

text \<open>The hunks an action selects: none when the field is absent.\<close>

definition selection :: "action_obj \<Rightarrow> string list" where
  "selection a = (case selectedHunks a of None \<Rightarrow> [] | Some hs \<Rightarrow> hs)"

text \<open>
  How the result of a file-system operation ends the turn of an action. A throw
  is captured: the outcome is the failure that carries the action and the message
  of the error, and \<^verbatim>\<open>pathsTouched\<close> stays as it was. A return gives the success
  and the \<^verbatim>\<open>pathsTouched\<close> named. The file system is the one the operation left.
\<close>

definition fs_result_recorded ::
  "(js_error + unit) \<times> filesystem \<Rightarrow> action_obj option \<Rightarrow> string list \<Rightarrow> outcome \<Rightarrow> string list
     \<Rightarrow> outcome \<times> apply_loop_state \<Rightarrow> bool" where
  "fs_result_recorded opres act touched success touched' res =
     (case opres of
        (Inl err, fs1) \<Rightarrow> res = (Failed act (message err), (fs1, touched))
      | (Inr _, fs1) \<Rightarrow> res = (success, (fs1, touched')))"

text \<open>
  The write of a whole content \<open>data\<close>: the parent directories are made, then the
  file is written; a throw of either is captured, and the success names the kind
  and the path and adds the path to \<^verbatim>\<open>pathsTouched\<close>.
\<close>

definition whole_write_recorded ::
  "string \<Rightarrow> action_obj option \<Rightarrow> string \<Rightarrow> string \<Rightarrow> string
     \<Rightarrow> apply_loop_state \<Rightarrow> outcome \<times> apply_loop_state \<Rightarrow> bool" where
  "whole_write_recorded kind act relPath resolved data st res =
     (case fs_mkdir (path_dirname resolved) (fst st) of
        (Inl err, fs1) \<Rightarrow> res = (Failed act (message err), (fs1, snd st))
      | (Inr _, fs1) \<Rightarrow>
          fs_result_recorded (fs_writeFile resolved data fs1) act (snd st)
            (Applied kind relPath False None) (snd st @ [relPath]) res)"

text \<open>
  The selective edit: the selected hunks are applied to the current content of
  the file. A failed application is captured with its error and nothing is
  written; the result of a successful one is written to the file, and a throw of
  that write is captured.
\<close>

definition patch_recorded ::
  "parsePatch_fn \<Rightarrow> applyPatch_fn \<Rightarrow> env \<Rightarrow> action_obj option \<Rightarrow> action_obj \<Rightarrow> string \<Rightarrow> string
     \<Rightarrow> apply_loop_state \<Rightarrow> outcome \<times> apply_loop_state \<Rightarrow> bool" where
  "patch_recorded parsePatch applyPatch e act a relPath resolved st res =
     (let applied = applySelectedHunks parsePatch applyPatch
                      (current_content e (fst st) relPath) (or_empty (originalDiff a)) (selection a)
      in case applied of
           Inr (ApplyOk result) \<Rightarrow>
             fs_result_recorded (fs_writeFile resolved result (fst st)) act (snd st)
               (Applied ''edit'' relPath False (Some (length (selection a)))) (snd st @ [relPath]) res
         | _ \<Rightarrow> res = (Failed act (apply_error applied), st))"

text \<open>
  The turn of a valid action whose path has resolved, by its kind: an unknown
  kind is the failure \<^verbatim>\<open>unknown action type\<close> and changes nothing; a \<^verbatim>\<open>delete\<close>
  removes the path; the \<^verbatim>\<open>create\<close> of a directory makes it and leaves
  \<^verbatim>\<open>pathsTouched\<close>; the \<^verbatim>\<open>create\<close> of a file and an \<^verbatim>\<open>edit\<close> that selects no hunk
  write the whole content; an \<^verbatim>\<open>edit\<close> that selects hunks is the selective edit.
\<close>

definition kind_processed ::
  "parsePatch_fn \<Rightarrow> applyPatch_fn \<Rightarrow> env \<Rightarrow> action_obj \<Rightarrow> string
     \<Rightarrow> apply_loop_state \<Rightarrow> outcome \<times> apply_loop_state \<Rightarrow> bool" where
  "kind_processed parsePatch applyPatch e a resolved st res =
     (let act = Some a; k = or_empty (action a); relPath = or_empty (path a) in
        (unknown_kind act \<longrightarrow> res = (Failed act ''unknown action type'', st))
      \<and> (k = ''delete'' \<longrightarrow>
           fs_result_recorded (fs_rm resolved (fst st)) act (snd st)
             (Applied ''delete'' relPath False None) (snd st @ [relPath]) res)
      \<and> (k = ''create'' \<and> isDirectory a \<longrightarrow>
           fs_result_recorded (fs_mkdir resolved (fst st)) act (snd st)
             (Applied ''create'' relPath True None) (snd st) res)
      \<and> (k = ''create'' \<and> \<not> isDirectory a \<longrightarrow>
           whole_write_recorded ''create'' act relPath resolved (or_empty (content a)) st res)
      \<and> (k = ''edit'' \<and> selection a = [] \<longrightarrow>
           whole_write_recorded ''edit'' act relPath resolved (or_empty (content a)) st res)
      \<and> (k = ''edit'' \<and> selection a \<noteq> [] \<longrightarrow>
           patch_recorded parsePatch applyPatch e act a relPath resolved st res))"

text \<open>
  The turn of one action of a batch, from the state \<open>st\<close> of the loop to the
  outcome and the state of \<open>res\<close>: an invalid action is the failure
  \<^verbatim>\<open>invalid action object\<close> and changes nothing; a path the Workspace Guard
  refuses is the failure with the message of the guard and changes nothing; every
  other action is processed by its kind.
\<close>

definition processed ::
  "parsePatch_fn \<Rightarrow> applyPatch_fn \<Rightarrow> env \<Rightarrow> action_obj option
     \<Rightarrow> apply_loop_state \<Rightarrow> outcome \<times> apply_loop_state \<Rightarrow> bool" where
  "processed parsePatch applyPatch e act st res =
     ((invalid_action act \<longrightarrow> res = (Failed act ''invalid action object'', st))
      \<and> (\<not> invalid_action act \<longrightarrow>
           (case act of
              None \<Rightarrow> False
            | Some a \<Rightarrow>
                (case resolveWorkspacePath e (Some (or_empty (path a))) of
                   Inl err \<Rightarrow> res = (Failed act (message err), st)
                 | Inr resolved \<Rightarrow> kind_processed parsePatch applyPatch e a resolved st res))))"

text \<open>
  The text an action proposes for its path: nothing for a \<^verbatim>\<open>delete\<close> and for the
  \<^verbatim>\<open>create\<close> of a directory, the content of the action otherwise (the empty text
  when it is absent).
\<close>

definition proposed_content :: "action_obj \<Rightarrow> string" where
  "proposed_content a =
     (if or_empty (action a) = ''delete'' \<or> (or_empty (action a) = ''create'' \<and> isDirectory a)
        then []
      else or_empty (content a))"

text \<open>
  The preview entry of one action on a file system: the failure
  \<^verbatim>\<open>invalid action object\<close> or \<^verbatim>\<open>unknown action type\<close> for an action that is
  invalid or of an unknown kind; for every other action the diff between the
  current content of its path and the text it proposes, with the hunks of that
  diff, or the failure with the message of the error when the diff throws.
\<close>

definition previewed ::
  "createPatch_fn \<Rightarrow> parsePatch_fn \<Rightarrow> env \<Rightarrow> filesystem \<Rightarrow> action_obj option \<Rightarrow> diff_entry \<Rightarrow> bool" where
  "previewed createPatch parsePatch e fs act d =
     ((invalid_action act \<longrightarrow> d = DiffFailed act ''invalid action object'')
      \<and> (\<not> invalid_action act \<and> unknown_kind act \<longrightarrow> d = DiffFailed act ''unknown action type'')
      \<and> (\<not> invalid_action act \<and> \<not> unknown_kind act \<longrightarrow>
           (case act of
              None \<Rightarrow> False
            | Some a \<Rightarrow>
                (case makeUnifiedDiff createPatch (or_empty (path a))
                        (current_content e fs (or_empty (path a))) (proposed_content a) of
                   Inl err \<Rightarrow> d = DiffFailed act (message err)
                 | Inr diff \<Rightarrow> d = DiffOk act diff (splitDiffIntoHunks parsePatch diff)))))"




subsection \<open>Concrete inputs\<close>

text \<open>The server installed in \<^verbatim>\<open>/srv/app\<close>; its workspace is \<^verbatim>\<open>/srv/app/workspace\<close>.\<close>

definition example_env :: env where
  "example_env = \<lparr>dirname = ''/srv/app'', cwd = ''/srv/app''\<rparr>"

text \<open>
  The unified diff of the package between the texts \<^verbatim>\<open>a\<close> and \<^verbatim>\<open>b\<close> (one line
  each, ended by a line feed) under the label \<^verbatim>\<open>f.txt\<close>, with the two empty
  headers the server passes (hence the tabulators).
\<close>

definition example_diff :: string where
  "example_diff =
     ''Index: f.txt\<newline>'' @
     ''===================================================================\<newline>'' @
     ''--- f.txt'' @ [CHR 0x09] @ ''\<newline>'' @
     ''+++ f.txt'' @ [CHR 0x09] @ ''\<newline>'' @
     ''@@ -1,1 +1,1 @@\<newline>'' @
     ''-a\<newline>'' @
     ''+b\<newline>''"

text \<open>A workspace that holds the file \<^verbatim>\<open>f.txt\<close> with the text \<^verbatim>\<open>a\<close> and the directory \<^verbatim>\<open>docs\<close>.\<close>

definition example_fs :: filesystem where
  "example_fs =
     [[''srv''] \<mapsto> Dir, [''srv'', ''app''] \<mapsto> Dir, [''srv'', ''app'', ''workspace''] \<mapsto> Dir,
      [''srv'', ''app'', ''workspace'', ''docs''] \<mapsto> Dir,
      [''srv'', ''app'', ''workspace'', ''f.txt''] \<mapsto> File ''a\<newline>'']"

text \<open>A version-control program that cannot be started.\<close>

definition git_unavailable :: exec_fn where
  "git_unavailable cmd fs = (Inl (Error ''git: command not found''), fs)"

text \<open>
  The text of the package's \<^verbatim>\<open>createPatch\<close> for two equal texts: the header and no
  hunk. It stands for \<^verbatim>\<open>createPatch\<close> where an input has equal texts only.
\<close>

definition createPatch_unchanged :: createPatch_fn where
  "createPatch_unchanged fileName oldStr newStr =
     Inr (''Index: '' @ fileName @ ''\<newline>'' @
          ''===================================================================\<newline>'' @
          ''--- '' @ fileName @ [CHR 0x09] @ ''\<newline>'' @
          ''+++ '' @ fileName @ [CHR 0x09] @ ''\<newline>'')"

text \<open>A \<^verbatim>\<open>JSON.parse\<close> on texts that are no JSON, and a backend that answers with prose.\<close>

definition JSON_parse_rejects :: JSON_parse_fn where
  "JSON_parse_rejects t = Inl (Error ''Unexpected token'')"

definition backend_prose :: backend_fn where
  "backend_prose prov sys usr = Inr ''I am sorry, I cannot produce that.''"

definition action_of :: "string \<Rightarrow> string \<Rightarrow> string option \<Rightarrow> action_obj" where
  "action_of kind p c =
     \<lparr>action = Some kind, path = Some p, content = c, isDirectory = False,
      selectedHunks = None, originalDiff = None\<rparr>"

text \<open>
  A batch with one action of every sort of failure, and a success after them: a
  \<^verbatim>\<open>null\<close> action, an action of the unknown kind \<^verbatim>\<open>rename\<close>, an \<^verbatim>\<open>edit\<close> of \<^verbatim>\<open>f.txt\<close>
  that selects a hunk the file does not take, the \<^verbatim>\<open>create\<close> of a file at the
  directory \<^verbatim>\<open>docs\<close>, the \<^verbatim>\<open>create\<close> of a file above the workspace, and the \<^verbatim>\<open>create\<close>
  of \<^verbatim>\<open>a.txt\<close>.
\<close>

definition mixed_batch :: "action_obj option list" where
  "mixed_batch =
     [None,
      Some (action_of ''rename'' ''f.txt'' None),
      Some ((action_of ''edit'' ''f.txt'' None)
              \<lparr>selectedHunks := Some [''@@ 1,1 1,1 @@\<newline>-a\<newline>+b\<newline>''],
               originalDiff := Some example_diff\<rparr>),
      Some (action_of ''create'' ''docs'' (Some ''x'')),
      Some (action_of ''create'' ''../outside.txt'' (Some ''x'')),
      Some (action_of ''create'' ''a.txt'' (Some ''x''))]"

text \<open>
  A list for the preview: an \<^verbatim>\<open>edit\<close> without a path, an action of the unknown kind
  \<^verbatim>\<open>rename\<close>, and the deletion of the missing file \<^verbatim>\<open>missing.txt\<close> (both texts of
  its diff are empty).
\<close>

definition preview_batch :: "action_obj option list" where
  "preview_batch =
     [Some \<lparr>action = Some ''edit'', path = None, content = Some ''x'', isDirectory = False,
            selectedHunks = None, originalDiff = None\<rparr>,
      Some (action_of ''rename'' ''f.txt'' None),
      Some (action_of ''delete'' ''missing.txt'' None)]"

text \<open>
  The reply to the batch of a \<^verbatim>\<open>null\<close> action and an action of unknown kind, with
  a version-control program that cannot be started.
\<close>

definition failing_batch_reply :: "http_reply \<times> filesystem" where
  "failing_batch_reply =
     apply_handler jsdiff_parsePatch jsdiff_applyPatch git_unavailable example_env
       \<lparr>req_actions = Array [None, Some (action_of ''rename'' ''f.txt'' None)],
        commitMessage = None\<rparr> example_fs"


text \<open>The reply to the batch that creates the file \<^verbatim>\<open>__proto__\<close> with the text \<^verbatim>\<open>x\<close>.\<close>

definition proto_batch_reply :: "http_reply \<times> filesystem" where
  "proto_batch_reply =
     apply_handler jsdiff_parsePatch jsdiff_applyPatch git_unavailable example_env
       \<lparr>req_actions = Array [Some (action_of ''create'' ''__proto__'' (Some ''x''))],
        commitMessage = None\<rparr> example_fs"


section \<open>Properties\<close>

subsection \<open>Reads leave the file system as it is\<close>

lemma fs_stat_state: "fs_stat p fs = (r, fs') \<Longrightarrow> fs' = fs"
  by (auto simp: fs_stat_def split: option.splits)

lemma fs_readFile_state: "fs_readFile p fs = (r, fs') \<Longrightarrow> fs' = fs"
  by (auto simp: fs_readFile_def split: option.splits node.splits)

lemma getFileContentOrEmpty_state: "getFileContentOrEmpty e p fs = (c, fs') \<Longrightarrow> fs' = fs"
  unfolding getFileContentOrEmpty_def
  by (auto split: prod.splits sum.splits node.splits dest: fs_stat_state fs_readFile_state)

lemma preview_state: "preview createPatch parsePatch e act p after fs = (d, fs') \<Longrightarrow> fs' = fs"
  unfolding preview_def
  by (auto split: prod.splits sum.splits dest: getFileContentOrEmpty_state)

lemma build_entry_state: "build_entry createPatch parsePatch e act fs = (d, fs') \<Longrightarrow> fs' = fs"
  unfolding build_entry_def Let_def
  by (auto split: option.splits if_splits dest: preview_state)

lemma build_diffs_state: "build_diffs createPatch parsePatch e acts fs = (ds, fs') \<Longrightarrow> fs' = fs"
proof (induction acts arbitrary: fs ds)
  case Nil
  then show ?case by simp
next
  case (Cons act acts)
  then show ?case
    by (auto split: prod.splits dest: build_entry_state)
qed

lemma getFileContentOrEmpty_no_file:
  assumes "case resolveWorkspacePath e p of Inl _ \<Rightarrow> True | Inr r \<Rightarrow> \<not> is_file (node_at fs (path_key r))"
  shows "getFileContentOrEmpty e p fs = ([], fs)"
  using assms
  by (auto simp: getFileContentOrEmpty_def fs_stat_def fs_readFile_def is_file_def
           split: sum.splits option.splits node.splits)

subsection \<open>The loop of the Apply Coordinator\<close>

lemma invalid_action_Some:
  "action a = Some k \<Longrightarrow> path a = Some p \<Longrightarrow> invalid_action (Some a) = (k = [] \<or> p = [])"
  by (simp add: invalid_action_def or_empty_def)

lemma getFileContentOrEmpty_current:
  "getFileContentOrEmpty e (Some p) fs = (current_content e fs p, fs)"
  by (auto simp: getFileContentOrEmpty_def current_content_def fs_stat_def fs_readFile_def
           split: sum.splits option.splits node.splits)

lemma write_whole_recorded:
  "whole_write_recorded kind act relPath resolved data st
     (write_whole kind act relPath resolved data st)"
  by (simp add: whole_write_recorded_def fs_result_recorded_def write_whole_def
           split: prod.splits sum.splits)

lemma edit_selected_recorded:
  "patch_recorded parsePatch applyPatch e act a relPath resolved st
     (edit_selected parsePatch applyPatch e act a relPath resolved (selection a) st)"
  by (simp add: patch_recorded_def fs_result_recorded_def edit_selected_def
                getFileContentOrEmpty_current apply_error_def Let_def
           split: prod.splits sum.splits apply_result.splits)

lemma apply_action_kind:
  assumes valid: "\<not> invalid_action (Some a)"
      and resolved: "resolveWorkspacePath e (Some (or_empty (path a))) = Inr resolved"
  shows "kind_processed parsePatch applyPatch e a resolved st
           (apply_action parsePatch applyPatch e (Some a) st)"
proof -
  let ?k = "or_empty (action a)" and ?p = "or_empty (path a)"
  consider (unknown) "?k \<noteq> ''create''" "?k \<noteq> ''edit''" "?k \<noteq> ''delete''"
    | (delete) "?k = ''delete''"
    | (directory) "?k = ''create''" "isDirectory a"
    | (create) "?k = ''create''" "\<not> isDirectory a"
    | (whole) "?k = ''edit''" "selection a = []"
    | (selected) "?k = ''edit''" "selection a \<noteq> []"
    by blast
  then show ?thesis
  proof cases
    case unknown
    with valid resolved show ?thesis
      by (simp add: kind_processed_def unknown_kind_def apply_action_def Let_def)
  next
    case delete
    with valid resolved show ?thesis
      by (simp add: kind_processed_def unknown_kind_def apply_action_def Let_def
                    fs_result_recorded_def split: prod.splits sum.splits)
  next
    case directory
    with valid resolved show ?thesis
      by (simp add: kind_processed_def unknown_kind_def apply_action_def Let_def
                    fs_result_recorded_def split: prod.splits sum.splits)
  next
    case create
    with valid resolved show ?thesis
      by (simp add: kind_processed_def unknown_kind_def apply_action_def Let_def
                    write_whole_recorded)
  next
    case whole
    then have "selectedHunks a = None \<or> selectedHunks a = Some []"
      by (auto simp: selection_def split: option.splits)
    with whole valid resolved show ?thesis
      by (auto simp: kind_processed_def unknown_kind_def apply_action_def Let_def
                     write_whole_recorded)
  next
    case selected
    then obtain h hs where sel: "selectedHunks a = Some (h # hs)" "selection a = h # hs"
      by (cases "selectedHunks a"; cases "selection a") (auto simp: selection_def)
    have "apply_action parsePatch applyPatch e (Some a) st
            = edit_selected parsePatch applyPatch e (Some a) a ?p resolved (selection a) st"
      using selected valid resolved sel by (simp add: apply_action_def Let_def)
    with selected show ?thesis
      by (simp add: kind_processed_def unknown_kind_def edit_selected_recorded)
  qed
qed

lemma apply_action_processed:
  "processed parsePatch applyPatch e act st (apply_action parsePatch applyPatch e act st)"
proof (cases "invalid_action act")
  case True
  then show ?thesis
    by (simp add: processed_def apply_action_def)
next
  case False
  then obtain a where a: "act = Some a"
    by (auto simp: invalid_action_def split: option.splits)
  show ?thesis
  proof (cases "resolveWorkspacePath e (Some (or_empty (path a)))")
    case (Inl err)
    with False a show ?thesis
      by (simp add: processed_def apply_action_def Let_def)
  next
    case (Inr resolved)
    with False a show ?thesis
      using apply_action_kind [of a e resolved parsePatch applyPatch st]
      by (simp add: processed_def)
  qed
qed

text \<open>
  The loop takes the actions one after the other: there is the list of the
  states it passes through, and every action is processed from the state its
  predecessors left, whatever their outcomes were.
\<close>

lemma apply_actions_trace:
  "\<exists>sts. length sts = Suc (length acts) \<and> sts ! 0 = st
     \<and> length (fst (apply_actions parsePatch applyPatch e acts st)) = length acts
     \<and> (\<forall>i < length acts.
           processed parsePatch applyPatch e (acts ! i) (sts ! i)
             (fst (apply_actions parsePatch applyPatch e acts st) ! i, sts ! Suc i))"
proof (induction acts arbitrary: st)
  case Nil
  show ?case by (rule exI [of _ "[st]"]) simp
next
  case (Cons act acts)
  obtain out st1 where 1: "apply_action parsePatch applyPatch e act st = (out, st1)"
    by (cases "apply_action parsePatch applyPatch e act st")
  obtain outs1 st2 where 2: "apply_actions parsePatch applyPatch e acts st1 = (outs1, st2)"
    by (cases "apply_actions parsePatch applyPatch e acts st1")
  from Cons.IH [of st1] 2 obtain sts1 where
    len: "length sts1 = Suc (length acts)" and start: "sts1 ! 0 = st1"
    and outs: "length outs1 = length acts"
    and step: "\<And>i. i < length acts \<Longrightarrow>
                 processed parsePatch applyPatch e (acts ! i) (sts1 ! i) (outs1 ! i, sts1 ! Suc i)"
    by auto
  have all: "fst (apply_actions parsePatch applyPatch e (act # acts) st) = out # outs1"
    using 1 2 by simp
  have first: "processed parsePatch applyPatch e act st (out, st1)"
    using apply_action_processed [of parsePatch applyPatch e act st] 1 by simp
  have "processed parsePatch applyPatch e ((act # acts) ! i) ((st # sts1) ! i)
          ((out # outs1) ! i, (st # sts1) ! Suc i)" if "i < length (act # acts)" for i
  proof (cases i)
    case 0
    with first start show ?thesis by simp
  next
    case (Suc j)
    with that step [of j] show ?thesis by simp
  qed
  with len outs all show ?case
    by (intro exI [of _ "st # sts1"]) simp
qed

text \<open>The reply of the handler to a request whose \<^verbatim>\<open>actions\<close> is an array.\<close>

lemma apply_handler_Array:
  "\<exists>git changed fs'.
     apply_handler parsePatch applyPatch exec e \<lparr>req_actions = Array acts, commitMessage = m\<rparr> fs
       = (Json200 \<lparr>ok = True,
                   actionsApplied = fst (apply_actions parsePatch applyPatch e acts (fs, [])),
                   gitResult = git, changedFiles = changed\<rparr>, fs')"
  by (simp add: apply_handler_def split: prod.splits)

subsection \<open>The parser of the package consumes its input\<close>

lemma parse_hunks_length: "length (snd (parse_hunks ls)) \<le> length ls"
proof (induction ls rule: parse_hunks.induct)
  case 1
  show ?case by simp
next
  case (2 l r)
  show ?case
  proof (cases "is_index_start l")
    case True
    then show ?thesis by simp
  next
    case False
    show ?thesis
    proof (cases "prefix ''@@'' l")
      case True
      have "length (snd (parse_hunks (drop (hunk_body_length r) r))) \<le> length (drop (hunk_body_length r) r)"
        using 2(1) [OF False True refl] .
      then show ?thesis
        using False True by (auto simp: Let_def split: prod.splits)
    next
      case nohunk: False
      have "length (snd (parse_hunks r)) \<le> length r"
        using 2(2) [OF False nohunk] .
      then show ?thesis
        using False nohunk by simp
    qed
  qed
qed

lemma parseFileHeader_length: "length (snd (parseFileHeader index ls)) \<le> length ls"
  by (simp add: parseFileHeader_def split: list.splits)

lemma parseFileHeader_header:
  "keyword_then_space ''---'' l \<or> keyword_then_space ''+++'' l \<Longrightarrow>
     snd (parseFileHeader index (l # r)) = r"
  by (auto simp: parseFileHeader_def)

lemma hunk_line_no_index_start:
  assumes "keyword_then_space ''@@'' l"
    and "\<not> keyword_then_space ''---'' l" and "\<not> keyword_then_space ''+++'' l"
  shows "\<not> is_index_start l" and "prefix ''@@'' l"
  using assms by (auto simp: is_index_start_def keyword_then_space_def prefix_def)

lemma parseFileHeader_other:
  "\<not> keyword_then_space ''---'' l \<Longrightarrow> \<not> keyword_then_space ''+++'' l \<Longrightarrow>
     parseFileHeader index (l # r) = (index, l # r)"
  by (simp add: parseFileHeader_def)

lemma parse_hunks_hunk_line:
  assumes "\<not> is_index_start l" and "prefix ''@@'' l"
  shows "length (snd (parse_hunks (l # r))) \<le> length r"
proof -
  have "length (snd (parse_hunks (drop (hunk_body_length r) r))) \<le> length (drop (hunk_body_length r) r)"
    by (rule parse_hunks_length)
  then show ?thesis
    using assms by (auto simp: Let_def split: prod.splits)
qed

lemma parseIndex_rest:
  "snd (parseIndex ls)
     = snd (parse_hunks (snd (parseFileHeader
         (fst (parseFileHeader empty_patch (dropWhile (\<lambda>l. \<not> is_header_start l) ls)))
         (snd (parseFileHeader empty_patch (dropWhile (\<lambda>l. \<not> is_header_start l) ls))))))"
  by (simp add: parseIndex_def split: prod.splits)

lemma parseIndex_consumes:
  assumes "ls \<noteq> []"
  shows "length (snd (parseIndex ls)) < length ls"
proof -
  obtain l r where ls: "ls = l # r"
    using assms by (cases ls) auto
  let ?ls0 = "dropWhile (\<lambda>l. \<not> is_header_start l) ls"
  let ?i1 = "fst (parseFileHeader empty_patch ?ls0)"
  let ?ls1 = "snd (parseFileHeader empty_patch ?ls0)"
  let ?ls2 = "snd (parseFileHeader ?i1 ?ls1)"
  have rest: "snd (parseIndex ls) = snd (parse_hunks ?ls2)"
    by (rule parseIndex_rest)
  have le2: "length (snd (parse_hunks ?ls2)) \<le> length ?ls2"
    by (rule parse_hunks_length)
  have le1: "length ?ls2 \<le> length ?ls1"
    by (rule parseFileHeader_length)
  have le0: "length ?ls1 \<le> length ?ls0"
    by (rule parseFileHeader_length)
  show ?thesis
  proof (cases "is_header_start l")
    case False
    then have "?ls0 = dropWhile (\<lambda>l. \<not> is_header_start l) r"
      by (simp add: ls)
    then have "length ?ls0 \<le> length r"
      by (simp add: length_dropWhile_le)
    with le0 le1 le2 rest show ?thesis
      by (simp add: ls)
  next
    case True
    then have ls0: "?ls0 = l # r"
      by (simp add: ls)
    show ?thesis
    proof (cases "keyword_then_space ''---'' l \<or> keyword_then_space ''+++'' l")
      case header: True
      then have "?ls1 = r"
        unfolding ls0 by (rule parseFileHeader_header)
      with le1 le2 rest show ?thesis
        by (simp add: ls)
    next
      case other: False
      then have 1: "parseFileHeader empty_patch (l # r) = (empty_patch, l # r)"
        by (simp add: parseFileHeader_other)
      have ls2: "?ls2 = l # r"
        unfolding ls0 by (simp add: 1)
      from True other have at: "keyword_then_space ''@@'' l"
        by (simp add: is_header_start_def)
      have "length (snd (parse_hunks (l # r))) \<le> length r"
        using hunk_line_no_index_start [OF at] other by (intro parse_hunks_hunk_line) simp_all
      with rest show ?thesis
        unfolding ls2 by (simp add: ls)
    qed
  qed
qed

lemma parse_indexes_step:
  "ls \<noteq> [] \<Longrightarrow> parse_indexes ls = fst (parseIndex ls) # parse_indexes (snd (parseIndex ls))"
  using parseIndex_consumes [of ls]
  by (subst parse_indexes.simps) (auto split: prod.splits)

section \<open>The claims\<close>

text \<open>
  C1. The guard compares the resolved path with the root as strings. A relative
  path that leaves the workspace for a sibling directory whose name begins
  with the root's name (\<^verbatim>\<open>../workspace-old/x.txt\<close>) resolves to a path that has the
  root as a prefix of its characters, so the guard returns it although it lies
  outside the workspace.
\<close>

theorem resolveWorkspacePath_accepts_sibling:
  "resolveWorkspacePath example_env (Some ''../workspace-old/x.txt'')
     = Inr ''/srv/app/workspace-old/x.txt''
   \<and> \<not> within_workspace example_env ''/srv/app/workspace-old/x.txt''"
  by code_simp

text \<open>
  C2. The round trip fails on the edit of \<^verbatim>\<open>a\<close> into \<^verbatim>\<open>b\<close>: the package applies
  its own diff and yields \<^verbatim>\<open>b\<close>, but the patch rebuilt from all hunk texts of
  \<^verbatim>\<open>splitDiffIntoHunks\<close> is rejected, because the rebuilt hunk header
  \<^verbatim>\<open>@@ 1,1 1,1 @@\<close> has lost the signs the package reads the line numbers after.
\<close>

theorem applySelectedHunks_all_hunks_rejected:
  "jsdiff_applyPatch ''a\<newline>'' example_diff = Inr (Some ''b\<newline>'')
   \<and> map hunkText (splitDiffIntoHunks jsdiff_parsePatch example_diff)
       = [''@@ 1,1 1,1 @@\<newline>-a\<newline>+b\<newline>'']
   \<and> applySelectedHunks jsdiff_parsePatch jsdiff_applyPatch ''a\<newline>'' example_diff
         (map hunkText (splitDiffIntoHunks jsdiff_parsePatch example_diff))
       = Inr (ApplyFailed ''applyPatch returned false'')"
  by code_simp

text \<open>
  C3. An \<^verbatim>\<open>edit\<close> action with a non-empty hunk selection whose selective apply fails
  (the parse throws, or the result is \<^verbatim>\<open>{ ok: false }\<close>) ends in a failed outcome that
  carries the action and the error, and the file system and \<^verbatim>\<open>pathsTouched\<close> are as
  they were.
\<close>

theorem edit_selected_failure_leaves_workspace:
  assumes "action a = Some ''edit''" and "path a = Some relPath" and "relPath \<noteq> []"
      and "selectedHunks a = Some (h # hs)"
      and "apply_failed (applySelectedHunks parsePatch applyPatch
             (fst (getFileContentOrEmpty e (Some relPath) fs)) (or_empty (originalDiff a)) (h # hs))"
  shows "\<exists>msg. apply_action parsePatch applyPatch e (Some a) (fs, touched)
                 = (Failed (Some a) msg, (fs, touched))
               \<and> (\<forall>r. resolveWorkspacePath e (Some relPath) = Inr r \<longrightarrow>
                    msg = apply_error (applySelectedHunks parsePatch applyPatch
                            (fst (getFileContentOrEmpty e (Some relPath) fs))
                            (or_empty (originalDiff a)) (h # hs)))"
proof -
  have valid: "\<not> invalid_action (Some a)"
    using assms(1-3) by (simp add: invalid_action_Some)
  obtain c where c: "getFileContentOrEmpty e (Some relPath) fs = (c, fs)"
    by (metis getFileContentOrEmpty_state prod.exhaust)
  show ?thesis
  proof (cases "resolveWorkspacePath e (Some relPath)")
    case (Inl err)
    then show ?thesis
      using valid assms(1,2) by (simp add: apply_action_def or_empty_def)
  next
    case (Inr resolved)
    have "edit_selected parsePatch applyPatch e (Some a) a relPath resolved (h # hs) (fs, touched)
            = (Failed (Some a) (apply_error (applySelectedHunks parsePatch applyPatch c
                  (or_empty (originalDiff a)) (h # hs))), (fs, touched))"
      using assms(5) c
      by (auto simp: edit_selected_def apply_failed_def apply_error_def
               split: sum.splits apply_result.splits)
    then show ?thesis
      using valid assms(1,2,4) Inr c
      by (simp add: apply_action_def or_empty_def)
  qed
qed

theorem edit_selected_failure_witness:
  "apply_failed (applySelectedHunks jsdiff_parsePatch jsdiff_applyPatch
     (fst (getFileContentOrEmpty example_env (Some ''f.txt'') example_fs)) example_diff
     [''@@ 1,1 1,1 @@\<newline>-a\<newline>+b\<newline>''])
   \<and> (\<exists>msg. apply_action jsdiff_parsePatch jsdiff_applyPatch example_env
               (Some ((action_of ''edit'' ''f.txt'' (Some ''b\<newline>''))
                  \<lparr>selectedHunks := Some [''@@ 1,1 1,1 @@\<newline>-a\<newline>+b\<newline>''],
                   originalDiff := Some example_diff\<rparr>))
               (example_fs, [])
             = (Failed (Some ((action_of ''edit'' ''f.txt'' (Some ''b\<newline>''))
                  \<lparr>selectedHunks := Some [''@@ 1,1 1,1 @@\<newline>-a\<newline>+b\<newline>''],
                   originalDiff := Some example_diff\<rparr>)) msg, (example_fs, [])))"
proof -
  let ?a = "(action_of ''edit'' ''f.txt'' (Some ''b\<newline>''))
              \<lparr>selectedHunks := Some [''@@ 1,1 1,1 @@\<newline>-a\<newline>+b\<newline>''],
               originalDiff := Some example_diff\<rparr>"
  have failed: "apply_failed (applySelectedHunks jsdiff_parsePatch jsdiff_applyPatch
     (fst (getFileContentOrEmpty example_env (Some ''f.txt'') example_fs)) example_diff
     [''@@ 1,1 1,1 @@\<newline>-a\<newline>+b\<newline>''])"
    by code_simp
  have "\<exists>msg. apply_action jsdiff_parsePatch jsdiff_applyPatch example_env (Some ?a) (example_fs, [])
                 = (Failed (Some ?a) msg, (example_fs, []))
               \<and> (\<forall>r. resolveWorkspacePath example_env (Some ''f.txt'') = Inr r \<longrightarrow>
                    msg = apply_error (applySelectedHunks jsdiff_parsePatch jsdiff_applyPatch
                            (fst (getFileContentOrEmpty example_env (Some ''f.txt'') example_fs))
                            (or_empty (originalDiff ?a)) [''@@ 1,1 1,1 @@\<newline>-a\<newline>+b\<newline>'']))"
    using failed
    by (intro edit_selected_failure_leaves_workspace) (simp_all add: action_of_def or_empty_def)
  with failed show ?thesis by blast
qed

text \<open>
  C5. The handler answers a batch of N actions with N outcomes, and the loop
  passes through N + 1 states, the first with the file system of the request and
  nothing touched. The i-th outcome is that of the i-th action, processed from
  the i-th state: an invalid action, a path the guard refuses, an unknown kind, a
  failed selective edit and a throw of the file system each end in the failure
  that carries the action and the error, every other action in its success; and
  the next action is processed from the state that is left, whatever the outcome
  was.
\<close>

theorem apply_handler_one_outcome_per_action:
  "\<exists>r fs' sts.
     apply_handler parsePatch applyPatch exec e
       \<lparr>req_actions = Array acts, commitMessage = m\<rparr> fs = (Json200 r, fs')
     \<and> length (actionsApplied r) = length acts
     \<and> length sts = Suc (length acts)
     \<and> sts ! 0 = (fs, [])
     \<and> (\<forall>i < length acts.
           processed parsePatch applyPatch e (acts ! i) (sts ! i)
             (actionsApplied r ! i, sts ! Suc i))"
proof -
  obtain git changed fs' where
    h: "apply_handler parsePatch applyPatch exec e \<lparr>req_actions = Array acts, commitMessage = m\<rparr> fs
       = (Json200 \<lparr>ok = True,
                   actionsApplied = fst (apply_actions parsePatch applyPatch e acts (fs, [])),
                   gitResult = git, changedFiles = changed\<rparr>, fs')"
    using apply_handler_Array by blast
  obtain sts where
    "length sts = Suc (length acts)" "sts ! 0 = (fs, [])"
    "length (fst (apply_actions parsePatch applyPatch e acts (fs, []))) = length acts"
    "\<forall>i < length acts.
       processed parsePatch applyPatch e (acts ! i) (sts ! i)
         (fst (apply_actions parsePatch applyPatch e acts (fs, [])) ! i, sts ! Suc i)"
    using apply_actions_trace [of acts "(fs, [])" parsePatch applyPatch e] by blast
  with h show ?thesis
    by (intro exI [of _ "\<lparr>ok = True,
                   actionsApplied = fst (apply_actions parsePatch applyPatch e acts (fs, [])),
                   gitResult = git, changedFiles = changed\<rparr>"] exI [of _ fs'] exI [of _ sts]) simp
qed

theorem apply_handler_outcomes_witness:
  "\<exists>r fs' sts.
     apply_handler jsdiff_parsePatch jsdiff_applyPatch git_unavailable example_env
       \<lparr>req_actions = Array mixed_batch, commitMessage = None\<rparr> example_fs = (Json200 r, fs')
     \<and> length mixed_batch = 6
     \<and> length (actionsApplied r) = length mixed_batch
     \<and> length sts = Suc (length mixed_batch)
     \<and> sts ! 0 = (example_fs, [])
     \<and> (\<forall>i < length mixed_batch.
           processed jsdiff_parsePatch jsdiff_applyPatch example_env (mixed_batch ! i) (sts ! i)
             (actionsApplied r ! i, sts ! Suc i))
     \<and> actionsApplied r
         = [Failed (mixed_batch ! 0) ''invalid action object'',
            Failed (mixed_batch ! 1) ''unknown action type'',
            Failed (mixed_batch ! 2) ''applyPatch returned false'',
            Failed (mixed_batch ! 3)
              (''EISDIR: illegal operation on a directory, open '' @ [CHR 0x27]
                 @ ''/srv/app/workspace/docs'' @ [CHR 0x27]),
            Failed (mixed_batch ! 4) ''Path outside workspace forbidden'',
            Applied ''create'' ''a.txt'' False None]"
proof -
  obtain r fs' sts where
    h: "apply_handler jsdiff_parsePatch jsdiff_applyPatch git_unavailable example_env
       \<lparr>req_actions = Array mixed_batch, commitMessage = None\<rparr> example_fs = (Json200 r, fs')"
    and t: "length (actionsApplied r) = length mixed_batch"
       "length sts = Suc (length mixed_batch)"
       "sts ! 0 = (example_fs, [])"
       "\<forall>i < length mixed_batch.
           processed jsdiff_parsePatch jsdiff_applyPatch example_env (mixed_batch ! i) (sts ! i)
             (actionsApplied r ! i, sts ! Suc i)"
    using apply_handler_one_outcome_per_action
            [where parsePatch = jsdiff_parsePatch and applyPatch = jsdiff_applyPatch
               and exec = git_unavailable and e = example_env and acts = mixed_batch
               and m = None and fs = example_fs]
    by blast
  have n: "length mixed_batch = 6"
    by (simp add: mixed_batch_def)
  have "actionsApplied (reply_body (fst (apply_handler jsdiff_parsePatch jsdiff_applyPatch git_unavailable example_env
       \<lparr>req_actions = Array mixed_batch, commitMessage = None\<rparr> example_fs)))
          = [Failed (mixed_batch ! 0) ''invalid action object'',
            Failed (mixed_batch ! 1) ''unknown action type'',
            Failed (mixed_batch ! 2) ''applyPatch returned false'',
            Failed (mixed_batch ! 3)
              (''EISDIR: illegal operation on a directory, open '' @ [CHR 0x27]
                 @ ''/srv/app/workspace/docs'' @ [CHR 0x27]),
            Failed (mixed_batch ! 4) ''Path outside workspace forbidden'',
            Applied ''create'' ''a.txt'' False None]"
    by code_simp
  then have "actionsApplied r
          = [Failed (mixed_batch ! 0) ''invalid action object'',
            Failed (mixed_batch ! 1) ''unknown action type'',
            Failed (mixed_batch ! 2) ''applyPatch returned false'',
            Failed (mixed_batch ! 3)
              (''EISDIR: illegal operation on a directory, open '' @ [CHR 0x27]
                 @ ''/srv/app/workspace/docs'' @ [CHR 0x27]),
            Failed (mixed_batch ! 4) ''Path outside workspace forbidden'',
            Applied ''create'' ''a.txt'' False None]"
    unfolding h by simp
  with h t n show ?thesis by blast
qed

subsection \<open>The parse stage\<close>

lemma tryParseJSONBlock_throw:
  "JSON_parse (lightweightRepair t) = Inl err \<Longrightarrow> tryParseJSONBlock JSON_parse t = JNull"
  by (simp add: tryParseJSONBlock_def)

lemma parse_fails_iff: "parse_fails JSON_parse t = (\<not> truthy (tryParseJSONBlock JSON_parse t))"
  by (simp add: parse_fails_def tryParseJSONBlock_def split: sum.splits)

text \<open>
  C4. When the structured parse of the raw text fails (it throws or yields a
  falsy value) and either the repair is disabled, or the repair call throws, or
  the parse of the repaired text fails as well, the handler answers with the raw
  text as the narrative and with empty lists of actions and diffs. Every throw
  of \<^verbatim>\<open>JSON.parse\<close> and of the repair call is a value the stage maps to that answer.
\<close>

theorem parse_failure_yields_narrative:
  assumes "parse_fails JSON_parse rawText"
      and "repairOnFail \<longrightarrow>
             (\<forall>t. repairJSONWithLLM backend rawText prov = Inr t \<longrightarrow> parse_fails JSON_parse t)"
  shows "assistant_parse_stage JSON_parse backend prov repairOnFail rawText
           = NarrativeOnly \<lparr>provider = prov, assistant_text = rawText, raw_model_text = rawText,
                            actions = [], diffs = []\<rparr>"
proof -
  have first: "\<not> truthy (tryParseJSONBlock JSON_parse rawText)"
    using assms(1) by (simp add: parse_fails_iff)
  have "\<not> truthy (parse_with_repair JSON_parse backend prov repairOnFail rawText)"
  proof (cases repairOnFail)
    case False
    with first show ?thesis by (simp add: parse_with_repair_def)
  next
    case True
    show ?thesis
    proof (cases "repairJSONWithLLM backend rawText prov")
      case (Inl err)
      with first True show ?thesis by (simp add: parse_with_repair_def)
    next
      case (Inr t)
      with assms(2) True have "\<not> truthy (tryParseJSONBlock JSON_parse t)"
        by (simp add: parse_fails_iff)
      with first True Inr show ?thesis by (simp add: parse_with_repair_def Let_def)
    qed
  qed
  then show ?thesis by (simp add: assistant_parse_stage_def)
qed

theorem parse_failure_witness:
  "parse_fails JSON_parse_rejects ''Sure, here is the plan.''
   \<and> parse_fails JSON_parse_rejects ''I am sorry, I cannot produce that.''
   \<and> repairJSONWithLLM backend_prose ''Sure, here is the plan.'' ''openai''
       = Inr ''I am sorry, I cannot produce that.''
   \<and> assistant_parse_stage JSON_parse_rejects backend_prose ''openai'' True ''Sure, here is the plan.''
       = NarrativeOnly \<lparr>provider = ''openai'', assistant_text = ''Sure, here is the plan.'',
                        raw_model_text = ''Sure, here is the plan.'', actions = [], diffs = []\<rparr>"
proof -
  have 1: "parse_fails JSON_parse_rejects ''Sure, here is the plan.''"
    by (simp add: parse_fails_def JSON_parse_rejects_def)
  have 2: "parse_fails JSON_parse_rejects t" for t
    by (simp add: parse_fails_def JSON_parse_rejects_def)
  have 3: "repairJSONWithLLM backend_prose ''Sure, here is the plan.'' ''openai''
             = Inr ''I am sorry, I cannot produce that.''"
    by (simp add: repairJSONWithLLM_def backend_prose_def)
  show ?thesis
    using parse_failure_yields_narrative [of JSON_parse_rejects "''Sure, here is the plan.''"
                                             True backend_prose "''openai''"] 1 2 3
    by simp
qed

subsection \<open>The loop of the Proposal Builder\<close>

lemma preview_entry:
  "preview createPatch parsePatch e act p after fs
     = ((case makeUnifiedDiff createPatch p (current_content e fs p) after of
           Inl err \<Rightarrow> DiffFailed act (message err)
         | Inr d \<Rightarrow> DiffOk act d (splitDiffIntoHunks parsePatch d)), fs)"
  by (simp add: preview_def getFileContentOrEmpty_current split: sum.splits)

lemma build_entry_previewed:
  "previewed createPatch parsePatch e fs act (fst (build_entry createPatch parsePatch e act fs))"
proof (cases "invalid_action act")
  case True
  then show ?thesis
    by (simp add: previewed_def build_entry_def)
next
  case False
  then obtain a where a: "act = Some a"
    by (auto simp: invalid_action_def split: option.splits)
  with False show ?thesis
    by (auto simp: previewed_def build_entry_def unknown_kind_def proposed_content_def
                   preview_entry Let_def split: sum.splits)
qed

lemma build_diffs_previewed:
  "list_all2 (previewed createPatch parsePatch e fs) acts
     (fst (build_diffs createPatch parsePatch e acts fs))"
proof (induction acts)
  case Nil
  show ?case by simp
next
  case (Cons act acts)
  obtain d fs1 where 1: "build_entry createPatch parsePatch e act fs = (d, fs1)"
    by (cases "build_entry createPatch parsePatch e act fs")
  then have same: "fs1 = fs" by (rule build_entry_state)
  have "previewed createPatch parsePatch e fs act d"
    using build_entry_previewed [of createPatch parsePatch e fs act] 1 by simp
  with Cons.IH 1 same show ?case
    by (auto split: prod.splits)
qed

text \<open>
  C7. The preview of a list of N actions has N entries, the i-th entry for the
  i-th action, and each entry is the preview of its own action on the file
  system of the request, whatever the other actions and their entries are: the
  failure \<^verbatim>\<open>invalid action object\<close> or \<^verbatim>\<open>unknown action type\<close> for an action
  that is invalid or of an unknown kind, and for every other action the diff of
  the current content of its path against the text it proposes with the hunks
  of that diff, or the failure with the error of the diff.
\<close>

theorem build_diffs_one_entry_per_action:
  "list_all2 (previewed createPatch parsePatch e fs) acts
     (fst (build_diffs createPatch parsePatch e acts fs))"
  by (rule build_diffs_previewed)

theorem build_diffs_entries_witness:
  "list_all2 (previewed createPatch_unchanged jsdiff_parsePatch example_env example_fs) preview_batch
     (fst (build_diffs createPatch_unchanged jsdiff_parsePatch example_env preview_batch example_fs))
   \<and> map invalid_action preview_batch = [True, False, False]
   \<and> map unknown_kind preview_batch = [False, True, False]
   \<and> map entry_ok
        (fst (build_diffs createPatch_unchanged jsdiff_parsePatch example_env preview_batch example_fs))
       = [False, False, True]
   \<and> map entry_error
        (fst (build_diffs createPatch_unchanged jsdiff_parsePatch example_env preview_batch example_fs))
       = [Some ''invalid action object'', Some ''unknown action type'', None]"
proof -
  have "map invalid_action preview_batch = [True, False, False]"
    by code_simp
  moreover have "map unknown_kind preview_batch = [False, True, False]"
    by code_simp
  moreover have "map entry_ok
          (fst (build_diffs createPatch_unchanged jsdiff_parsePatch example_env preview_batch example_fs))
        = [False, False, True]"
    by code_simp
  moreover have "map entry_error
          (fst (build_diffs createPatch_unchanged jsdiff_parsePatch example_env preview_batch example_fs))
        = [Some ''invalid action object'', Some ''unknown action type'', None]"
    by code_simp
  ultimately show ?thesis
    using build_diffs_one_entry_per_action
            [where createPatch = createPatch_unchanged and parsePatch = jsdiff_parsePatch
               and e = example_env and fs = example_fs and acts = preview_batch]
    by simp
qed

text \<open>
  C8. Building the preview leaves the file system as it was, for every list of
  actions and whatever the diff package does; a path that is outside the
  workspace, missing or a directory reads as the empty string, and that read
  changes nothing either.
\<close>

theorem build_diffs_read_only:
  "snd (build_diffs createPatch parsePatch e acts fs) = fs
   \<and> ((case resolveWorkspacePath e p of
          Inl _ \<Rightarrow> True
        | Inr r \<Rightarrow> \<not> is_file (node_at fs (path_key r)))
       \<longrightarrow> getFileContentOrEmpty e p fs = ([], fs))"
  by (metis build_diffs_state getFileContentOrEmpty_no_file prod.collapse)

theorem build_diffs_read_only_witness:
  "(case resolveWorkspacePath example_env (Some ''docs'') of
      Inl _ \<Rightarrow> True
    | Inr r \<Rightarrow> \<not> is_file (node_at example_fs (path_key r)))
   \<and> getFileContentOrEmpty example_env (Some ''docs'') example_fs = ([], example_fs)
   \<and> snd (build_diffs createPatch_unchanged jsdiff_parsePatch example_env
             [Some (action_of ''delete'' ''docs'' None), Some (action_of ''create'' ''new.txt'' None)]
             example_fs) = example_fs"
proof -
  have "case resolveWorkspacePath example_env (Some ''docs'') of
          Inl _ \<Rightarrow> True
        | Inr r \<Rightarrow> \<not> is_file (node_at example_fs (path_key r))"
    by code_simp
  then show ?thesis
    using build_diffs_read_only [of createPatch_unchanged jsdiff_parsePatch example_env
            "[Some (action_of ''delete'' ''docs'' None), Some (action_of ''create'' ''new.txt'' None)]"
            example_fs "Some ''docs''"]
    by simp
qed

text \<open>
  C9. The reply to a request whose \<^verbatim>\<open>actions\<close> is an array (or is absent, which
  stands for the empty array) is the JSON object whose field \<^verbatim>\<open>ok\<close> is \<^verbatim>\<open>true\<close>,
  whatever the actions, the file system and the version-control program do; it
  is \<^verbatim>\<open>true\<close> for the batch of a \<^verbatim>\<open>null\<close> action and an action of unknown kind with
  a version-control program that cannot be started, where both outcomes and the
  commit have failed.
\<close>

theorem apply_handler_ok_is_true:
  "(\<exists>r fs'. apply_handler parsePatch applyPatch exec e
               \<lparr>req_actions = Array acts, commitMessage = m\<rparr> fs = (Json200 r, fs') \<and> ok r)
   \<and> (\<exists>r fs'. apply_handler parsePatch applyPatch exec e
               \<lparr>req_actions = Missing, commitMessage = m\<rparr> fs = (Json200 r, fs') \<and> ok r)
   \<and> ok (reply_body (fst failing_batch_reply))
   \<and> map outcome_ok (actionsApplied (reply_body (fst failing_batch_reply))) = [False, False]
   \<and> gitResult (reply_body (fst failing_batch_reply))
       = \<lparr>git_ok = False, git_error = Some ''git: command not found''\<rparr>"
proof -
  have "\<exists>r fs'. apply_handler parsePatch applyPatch exec e
               \<lparr>req_actions = Array acts, commitMessage = m\<rparr> fs = (Json200 r, fs') \<and> ok r"
    by (simp add: apply_handler_def split: prod.splits)
  moreover have "\<exists>r fs'. apply_handler parsePatch applyPatch exec e
               \<lparr>req_actions = Missing, commitMessage = m\<rparr> fs = (Json200 r, fs') \<and> ok r"
    by (simp add: apply_handler_def split: prod.splits)
  moreover have "ok (reply_body (fst failing_batch_reply))"
    by code_simp
  moreover have "map outcome_ok (actionsApplied (reply_body (fst failing_batch_reply))) = [False, False]"
    by code_simp
  moreover have "gitResult (reply_body (fst failing_batch_reply))
       = \<lparr>git_ok = False, git_error = Some ''git: command not found''\<rparr>"
    by code_simp
  ultimately show ?thesis by blast
qed

subsection \<open>The write of the whole content\<close>

lemma fs_mkdir_success:
  assumes "fst (fs_mkdir d fs) = Inr ()"
  shows "fs_mkdir d fs = (Inr (), (\<lambda>q. if prefix q (path_key d) then Some Dir else fs q))"
    and "\<not> list_ex (\<lambda>a. is_file (node_at fs a)) (prefixes (path_key d))"
  using assms by (auto simp: fs_mkdir_def Let_def split: if_splits)

lemma write_whole_existing_file:
  assumes isfile: "node_at (fst st) (path_key resolved) = Some (File c)"
      and dir: "node_at (fst st) (butlast (path_key resolved)) = Some Dir"
      and mk: "fst (fs_mkdir (path_dirname resolved) (fst st)) = Inr ()"
  shows "\<exists>fs'. write_whole kind act relPath resolved data st
                 = (Applied kind relPath False None, (fs', snd st @ [relPath]))
               \<and> node_at fs' (path_key resolved) = Some (File data)"
proof -
  let ?k = "path_key resolved" and ?d = "path_key (path_dirname resolved)"
  let ?fs1 = "\<lambda>q. if prefix q ?d then Some Dir else fst st q"
  have mk1: "fs_mkdir (path_dirname resolved) (fst st) = (Inr (), ?fs1)"
    and nofile: "\<not> list_ex (\<lambda>a. is_file (node_at (fst st) a)) (prefixes ?d)"
    using fs_mkdir_success [OF mk] by simp_all
  have k: "?k \<noteq> []"
    using isfile by (auto simp: node_at_def)
  have "\<not> prefix ?k ?d"
  proof
    assume "prefix ?k ?d"
    then have "?k \<in> set (prefixes ?d)" by (simp add: in_set_prefixes)
    moreover have "is_file (node_at (fst st) ?k)" using isfile by (simp add: is_file_def)
    ultimately show False using nofile by (auto simp: list_ex_iff)
  qed
  then have at_k: "node_at ?fs1 ?k = Some (File c)"
    using isfile k by (simp add: node_at_def)
  have at_parent: "node_at ?fs1 (butlast ?k) = Some Dir"
    using dir by (auto simp: node_at_def)
  have "fs_writeFile resolved data ?fs1 = (Inr (), ?fs1(?k \<mapsto> File data))"
    using at_k at_parent by (simp add: fs_writeFile_def Let_def)
  moreover have "node_at (?fs1(?k \<mapsto> File data)) ?k = Some (File data)"
    using k by (simp add: node_at_def)
  ultimately show ?thesis
    using mk1 by (simp add: write_whole_def)
qed

text \<open>
  C10. An \<^verbatim>\<open>edit\<close> without selected hunks, or the \<^verbatim>\<open>create\<close> of a file, whose
  \<^verbatim>\<open>content\<close> is absent performs the write of the whole content with the empty
  string; where the target is a file in an existing directory whose parents can
  be made, the action succeeds and the file is empty afterwards.
\<close>

theorem absent_content_writes_empty:
  assumes "action a = Some kind" and "path a = Some relPath" and "relPath \<noteq> []"
      and "content a = None"
      and "(kind = ''create'' \<and> \<not> isDirectory a)
           \<or> (kind = ''edit'' \<and> (selectedHunks a = None \<or> selectedHunks a = Some []))"
      and "resolveWorkspacePath e (Some relPath) = Inr resolved"
  shows "apply_action parsePatch applyPatch e (Some a) st
           = write_whole kind (Some a) relPath resolved [] st
         \<and> (node_at (fst st) (path_key resolved) = Some (File c)
              \<and> node_at (fst st) (butlast (path_key resolved)) = Some Dir
              \<and> fst (fs_mkdir (path_dirname resolved) (fst st)) = Inr ()
            \<longrightarrow> (\<exists>fs'. apply_action parsePatch applyPatch e (Some a) st
                          = (Applied kind relPath False None, (fs', snd st @ [relPath]))
                        \<and> node_at fs' (path_key resolved) = Some (File [])))"
proof -
  have kind: "kind \<noteq> []" using assms(5) by auto
  have valid: "\<not> invalid_action (Some a)"
    using assms(1-3) kind by (simp add: invalid_action_def or_empty_def)
  have eq: "apply_action parsePatch applyPatch e (Some a) st
              = write_whole kind (Some a) relPath resolved [] st"
    using valid assms by (auto simp: apply_action_def or_empty_def Let_def)
  show ?thesis
    unfolding eq using write_whole_existing_file [of st resolved c kind "Some a" relPath "[]"]
    by blast
qed

theorem absent_content_witness:
  "resolveWorkspacePath example_env (Some ''f.txt'') = Inr ''/srv/app/workspace/f.txt''
   \<and> node_at example_fs (path_key ''/srv/app/workspace/f.txt'') = Some (File ''a\<newline>'')
   \<and> (\<exists>fs'. apply_action jsdiff_parsePatch jsdiff_applyPatch example_env
                (Some (action_of ''edit'' ''f.txt'' None)) (example_fs, [])
              = (Applied ''edit'' ''f.txt'' False None, (fs', [''f.txt'']))
            \<and> node_at fs' (path_key ''/srv/app/workspace/f.txt'') = Some (File []))"
proof -
  have r: "resolveWorkspacePath example_env (Some ''f.txt'') = Inr ''/srv/app/workspace/f.txt''"
    by code_simp
  have f: "node_at example_fs (path_key ''/srv/app/workspace/f.txt'') = Some (File ''a\<newline>'')"
    by code_simp
  have d: "node_at example_fs (butlast (path_key ''/srv/app/workspace/f.txt'')) = Some Dir"
    by code_simp
  have m: "fst (fs_mkdir (path_dirname ''/srv/app/workspace/f.txt'') example_fs) = Inr ()"
    by code_simp
  have a: "action (action_of ''edit'' ''f.txt'' None) = Some ''edit''"
            "path (action_of ''edit'' ''f.txt'' None) = Some ''f.txt''"
            "content (action_of ''edit'' ''f.txt'' None) = None"
            "(''edit'' = ''create'' \<and> \<not> isDirectory (action_of ''edit'' ''f.txt'' None))
             \<or> (''edit'' = ''edit'' \<and> (selectedHunks (action_of ''edit'' ''f.txt'' None) = None
                   \<or> selectedHunks (action_of ''edit'' ''f.txt'' None) = Some []))"
    by (simp_all add: action_of_def)
  have n: "''f.txt'' \<noteq> []" by simp
  note th = absent_content_writes_empty [of "action_of ''edit'' ''f.txt'' None" "''edit''" "''f.txt''"
            example_env "''/srv/app/workspace/f.txt''" jsdiff_parsePatch jsdiff_applyPatch
            "(example_fs, [])" "''a\<newline>''", OF a(1) a(2) n a(3) a(4) r]
  from th [THEN conjunct2] r f d m show ?thesis by simp
qed

subsection \<open>The read-back\<close>






text \<open>
  The file \<^verbatim>\<open>__proto__\<close> is created and written, and the reply has no key for it.
\<close>

lemma changedFiles_proto_not_stored:
  "actionsApplied (reply_body (fst proto_batch_reply)) = [Applied ''create'' ''__proto__'' False None]
   \<and> node_at (snd proto_batch_reply) (path_key ''/srv/app/workspace/__proto__'') = Some (File ''x'')
   \<and> changedFiles (reply_body (fst proto_batch_reply)) ''__proto__'' = None"
  by code_simp




end
